theory Spec2Isabelle
  imports Complex_Main "HOL-Library.AList" "HOL-Library.Log_Nat"
begin

section \<open>Python values and the operations the mixin applies to them\<close>

text \<open>
  The manifest, the catalog and the run results are JSON documents loaded into Python
  dictionaries, lists, strings, integers, booleans and \<open>None\<close>. A dictionary is an
  association list in insertion order with distinct keys (what \<open>json.load\<close> builds);
  a lookup reads the first pair of a key. Strings are byte strings: the model is exact
  for ASCII text. JSON numbers with a fraction are not part of the model (no field the
  mixin reads holds one).
\<close>

datatype json =
    JNull
  | JBool bool
  | JInt int
  | JStr string
  | JList "json list"
  | JDict "(string \<times> json) list"

datatype py_error =
    KeyError
  | TypeError
  | AttributeError
  | IndexError
  | ValueError
  | ValidationError
  | ClientError

text \<open>Sequencing of steps that may raise: the first exception ends the block.\<close>

definition and_then :: "'e + 'a \<Rightarrow> ('a \<Rightarrow> 'e + 'b) \<Rightarrow> 'e + 'b" where
  "and_then r f = (case r of Inl e \<Rightarrow> Inl e | Inr x \<Rightarrow> f x)"

text \<open>Truth value of an object in a condition (\<open>if x\<close>, \<open>x if c else y\<close>).\<close>

fun truthy :: "json \<Rightarrow> bool" where
  "truthy JNull = False"
| "truthy (JBool b) = b"
| "truthy (JInt i) = (i \<noteq> 0)"
| "truthy (JStr s) = (s \<noteq> [])"
| "truthy (JList xs) = (xs \<noteq> [])"
| "truthy (JDict d) = (d \<noteq> [])"

fun hashable :: "json \<Rightarrow> bool" where
  "hashable (JList xs) = False"
| "hashable (JDict d) = False"
| "hashable v = True"

text \<open>
  \<open>d[k]\<close> and \<open>d.get(k)\<close> on a dictionary whose keys are strings: an unhashable key
  raises TypeError, a key that is not a string is never found.
\<close>

fun dict_getitem :: "(string \<times> json) list \<Rightarrow> json \<Rightarrow> py_error + json" where
  "dict_getitem d (JStr k) = (case map_of d k of None \<Rightarrow> Inl KeyError | Some v \<Rightarrow> Inr v)"
| "dict_getitem d k = (if hashable k then Inl KeyError else Inl TypeError)"

fun dict_get :: "(string \<times> json) list \<Rightarrow> json \<Rightarrow> json \<Rightarrow> py_error + json" where
  "dict_get d (JStr k) dflt = (case map_of d k of None \<Rightarrow> Inr dflt | Some v \<Rightarrow> Inr v)"
| "dict_get d k dflt = (if hashable k then Inr dflt else Inl TypeError)"

text \<open>Indexing a sequence by an integer; negative indices count from the end.\<close>

definition py_index :: "'a list \<Rightarrow> int \<Rightarrow> py_error + 'a" where
  "py_index xs i =
     (if 0 \<le> i \<and> i < int (length xs) then Inr (xs ! nat i)
      else if i < 0 \<and> - int (length xs) \<le> i then Inr (xs ! nat (int (length xs) + i))
      else Inl IndexError)"

fun as_index :: "json \<Rightarrow> int option" where
  "as_index (JInt i) = Some i"
| "as_index (JBool b) = Some (if b then 1 else 0)"
| "as_index v = None"

text \<open>\<open>x[k]\<close> on any value.\<close>

fun py_getitem :: "json \<Rightarrow> json \<Rightarrow> py_error + json" where
  "py_getitem (JDict d) k = dict_getitem d k"
| "py_getitem (JList xs) k =
     (case as_index k of None \<Rightarrow> Inl TypeError | Some i \<Rightarrow> py_index xs i)"
| "py_getitem (JStr s) k =
     (case as_index k of None \<Rightarrow> Inl TypeError
      | Some i \<Rightarrow> and_then (py_index s i) (\<lambda>c. Inr (JStr [c])))"
| "py_getitem v k = Inl TypeError"

text \<open>\<open>x["name"]\<close> with a string literal.\<close>

definition item :: "json \<Rightarrow> string \<Rightarrow> py_error + json" where
  "item x k = py_getitem x (JStr k)"

text \<open>\<open>x.get(k, dflt)\<close>: only a dictionary has the method.\<close>

fun py_get :: "json \<Rightarrow> json \<Rightarrow> json \<Rightarrow> py_error + json" where
  "py_get (JDict d) k dflt = dict_get d k dflt"
| "py_get v k dflt = Inl AttributeError"

definition get_or :: "json \<Rightarrow> string \<Rightarrow> json \<Rightarrow> py_error + json" where
  "get_or x k dflt = py_get x (JStr k) dflt"

fun is_infix :: "string \<Rightarrow> string \<Rightarrow> bool" where
  "is_infix k [] = (k = [])"
| "is_infix k (c # s) = (take (length k) (c # s) = k \<or> is_infix k s)"

text \<open>\<open>"name" in x\<close> with a string literal on the left.\<close>

fun str_in :: "string \<Rightarrow> json \<Rightarrow> py_error + bool" where
  "str_in k (JDict d) = Inr (k \<in> set (map fst d))"
| "str_in k (JList xs) = Inr (JStr k \<in> set xs)"
| "str_in k (JStr s) = Inr (is_infix k s)"
| "str_in k v = Inl TypeError"

text \<open>\<open>"name" in x.keys()\<close>.\<close>

fun in_keys :: "string \<Rightarrow> json \<Rightarrow> py_error + bool" where
  "in_keys k (JDict d) = Inr (k \<in> set (map fst d))"
| "in_keys k v = Inl AttributeError"

text \<open>The items a \<open>for\<close> loop visits, and \<open>len\<close>.\<close>

fun py_iter :: "json \<Rightarrow> py_error + json list" where
  "py_iter (JList xs) = Inr xs"
| "py_iter (JDict d) = Inr (map (\<lambda>p. JStr (fst p)) d)"
| "py_iter (JStr s) = Inr (map (\<lambda>c. JStr [c]) s)"
| "py_iter v = Inl TypeError"

fun py_len :: "json \<Rightarrow> py_error + nat" where
  "py_len (JList xs) = Inr (length xs)"
| "py_len (JDict d) = Inr (length d)"
| "py_len (JStr s) = Inr (length s)"
| "py_len v = Inl TypeError"

definition lower_char :: "char \<Rightarrow> char" where
  "lower_char c =
     (case map_of (zip ''ABCDEFGHIJKLMNOPQRSTUVWXYZ'' ''abcdefghijklmnopqrstuvwxyz'') c of
        None \<Rightarrow> c
      | Some l \<Rightarrow> l)"

text \<open>\<open>x.lower()\<close>: only a string has the method.\<close>

fun py_lower :: "json \<Rightarrow> py_error + json" where
  "py_lower (JStr s) = Inr (JStr (map lower_char s))"
| "py_lower v = Inl AttributeError"

text \<open>\<open>{**a, **b}\<close>: the keys of \<open>a\<close> in order, then the new keys of \<open>b\<close>; \<open>b\<close> wins.\<close>

definition dict_items :: "json \<Rightarrow> py_error + (string \<times> json) list" where
  "dict_items x = (case x of JDict d \<Rightarrow> Inr d | _ \<Rightarrow> Inl TypeError)"

definition dict_store :: "(string \<times> json) list \<Rightarrow> string \<times> json \<Rightarrow> (string \<times> json) list" where
  "dict_store d p = AList.update (fst p) (snd p) d"

definition merge_dicts :: "(string \<times> json) list \<Rightarrow> (string \<times> json) list \<Rightarrow> (string \<times> json) list" where
  "merge_dicts a b = foldl dict_store [] (a @ b)"

section \<open>The collaborators and the state of the mixin\<close>

datatype entity_kind = User | Team | Table | DataModelKind | TestSuite | TestDefinition | TestCase

text \<open>An entity of the metadata server, as far as the mixin reads it: \<open>entity.id.__root__\<close>.\<close>

datatype entity = Entity (entity_id: string)

record entity_reference =
  ref_id :: string
  ref_type :: string

record column =
  col_name :: json
  col_description :: "json option"
  col_dataType :: string
  col_dataLength :: int
  col_ordinalPosition :: json

record data_model =
  dm_modelType :: string
  dm_description :: "json option"
  dm_path :: string
  dm_rawSql :: json
  dm_sql :: json
  dm_columns :: "column list"
  dm_upstream :: "string list"
  dm_owner :: "entity_reference option"

datatype entity_type = COLUMN | TABLE

text \<open>
  What the generators yield: \<open>AddLineageRequest\<close> with the two ends of its edge,
  \<open>CreateTestSuiteRequest\<close> with name and description, \<open>CreateTestDefinitionRequest\<close>
  with name, description, entity type and parameter definition (the test platforms are
  always \<open>[TestPlatform.DBT]\<close>).
\<close>

datatype request =
    AddLineageRequest (fromEntity: entity_reference) (toEntity: entity_reference)
  | CreateTestSuiteRequest (suite_name: json) (suite_description: json)
  | CreateTestDefinitionRequest (definition_name: json) (definition_description: json)
      (definition_entityType: entity_type) (parameterDefinition: json)

datatype test_case_status = Success | Failed | Aborted

text \<open>\<open>TestCaseResult\<close>; a \<open>TestResultValue\<close> is the pair of its name and its value.\<close>

record test_case_result =
  timestamp :: "int option"
  testCaseStatus :: test_case_status
  testResultValue :: "(json \<times> string) list"

text \<open>
  What the mixin calls but does not define. \<open>'c\<close> is the state of the metadata server.
  The classes of \<open>metadata.generated\<close> are pydantic models: a record below holds the
  arguments the mixin passes to the constructor, and the constructor's validation is the
  \<open>valid_\<close> parameter of the class (a refused argument raises ValidationError).
\<close>

record 'c collaborators =
  serviceName :: string
  get_column_type :: "json \<Rightarrow> py_error + string"
  fqn_build_table :: "'c \<Rightarrow> string \<Rightarrow> json \<Rightarrow> json \<Rightarrow> json \<Rightarrow> py_error + string option"
  fqn_build_data_model :: "'c \<Rightarrow> string \<Rightarrow> json \<Rightarrow> json \<Rightarrow> json \<Rightarrow> py_error + string option"
  fqn_build_user :: "'c \<Rightarrow> string \<Rightarrow> py_error + string option"
  fqn_build_team :: "'c \<Rightarrow> string \<Rightarrow> py_error + string option"
  get_entity_reference :: "'c \<Rightarrow> entity_kind \<Rightarrow> string \<Rightarrow> py_error + entity_reference option"
  get_by_name :: "'c \<Rightarrow> entity_kind \<Rightarrow> json \<Rightarrow> py_error + entity option"
  fqn_build_test_case ::
    "'c \<Rightarrow> string \<Rightarrow> json \<Rightarrow> json \<Rightarrow> json \<Rightarrow> json \<Rightarrow> json \<Rightarrow> py_error + string option"
  add_test_case_results :: "'c \<Rightarrow> test_case_result \<Rightarrow> string option \<Rightarrow> py_error + 'c"
  py_repr :: "json \<Rightarrow> string"
  valid_Column :: "column \<Rightarrow> bool"
  valid_DataModel :: "data_model \<Rightarrow> bool"
  valid_request :: "request \<Rightarrow> bool"
  valid_TestCaseResult :: "test_case_result \<Rightarrow> bool"

text \<open>The fields of \<open>self\<close>.\<close>

record dbt_mixin =
  dbtConfigSource :: bool
  dbt_manifest :: json
  dbt_catalog :: json
  dbt_run_results :: json
  manifest_entities :: "(string \<times> json) list"
  catalog_entities :: "(string \<times> json) list"
  dbt_tests :: "(string \<times> json) list"
  data_models :: "(string option \<times> data_model) list"

text \<open>\<open>f"{x}"\<close>: a string is inserted as it is, any other value by its \<open>repr\<close>.\<close>

definition py_str :: "'c collaborators \<Rightarrow> json \<Rightarrow> string" where
  "py_str env v = (case v of JStr s \<Rightarrow> s | _ \<Rightarrow> py_repr env v)"

definition or_default :: "json \<Rightarrow> json" where
  "or_default v = (if truthy v then v else JStr ''default'')"

text \<open>\<open>if fqn:\<close> on the optional string that \<open>fqn.build\<close> returns: the string when it is
  neither \<open>None\<close> nor empty.\<close>

definition found :: "string option \<Rightarrow> string option" where
  "found f = (case f of None \<Rightarrow> None | Some s \<Rightarrow> if s \<noteq> [] then Some s else None)"

section \<open>Upstream resolution\<close>

text \<open>The body of the \<open>try\<close> of \<open>_parse_data_model_upstream\<close> for one dependency id.\<close>

definition parent_fqn_of ::
  "'c collaborators \<Rightarrow> 'c \<Rightarrow> dbt_mixin \<Rightarrow> json \<Rightarrow> py_error + string option" where
  "parent_fqn_of env c self node =
     and_then (dict_getitem (manifest_entities self) node) (\<lambda>parent_node.
     and_then (item parent_node ''database'') (\<lambda>database.
     and_then (item parent_node ''schema'') (\<lambda>schema.
     and_then (item parent_node ''name'') (\<lambda>name.
       fqn_build_table env c (serviceName env) (or_default database) (or_default schema) name))))"

text \<open>
  One turn of the loop: the accumulator is \<open>upstream_nodes\<close> and the warnings logged so
  far (the dependency id and the exception).
\<close>

definition upstream_step ::
  "'c collaborators \<Rightarrow> 'c \<Rightarrow> dbt_mixin \<Rightarrow> string list \<times> (json \<times> py_error) list \<Rightarrow> json
     \<Rightarrow> string list \<times> (json \<times> py_error) list" where
  "upstream_step env c self acc node =
     (case parent_fqn_of env c self node of
        Inl exc \<Rightarrow> (fst acc, snd acc @ [(node, exc)])
      | Inr parent_fqn \<Rightarrow>
          (case found parent_fqn of
             None \<Rightarrow> acc
           | Some f \<Rightarrow> (fst acc @ [f], snd acc)))"

definition parse_data_model_upstream ::
  "'c collaborators \<Rightarrow> 'c \<Rightarrow> dbt_mixin \<Rightarrow> json \<Rightarrow> py_error + string list \<times> (json \<times> py_error) list" where
  "parse_data_model_upstream env c self mnode =
     and_then (str_in ''depends_on'' mnode) (\<lambda>has_depends_on.
       if \<not> has_depends_on then Inr ([], [])
       else
         and_then (item mnode ''depends_on'') (\<lambda>depends_on.
         and_then (str_in ''nodes'' depends_on) (\<lambda>has_nodes.
           if \<not> has_nodes then Inr ([], [])
           else
             and_then (item depends_on ''nodes'') (\<lambda>nodes.
             and_then (py_iter nodes) (\<lambda>ns.
               Inr (foldl (upstream_step env c self) ([], []) ns))))))"

text \<open>A dependency id is in the merged manifest-entity map.\<close>

fun known_id :: "(string \<times> json) list \<Rightarrow> json \<Rightarrow> bool" where
  "known_id d (JStr k) = (k \<in> set (map fst d))"
| "known_id d v = False"

section \<open>Column resolution\<close>

text \<open>
  The body of the \<open>try\<close> of \<open>_parse_data_model_columns\<close> for one catalog column: the
  column, or the exception that the \<open>except\<close> logs.
\<close>

definition parse_column ::
  "'c collaborators \<Rightarrow> json \<Rightarrow> json \<Rightarrow> json \<Rightarrow> json \<Rightarrow> py_error + column" where
  "parse_column env manifest_columns key ccolumn name =
     and_then (item ccolumn ''type'') (\<lambda>ctype.
     and_then (get_column_type env ctype) (\<lambda>col_type.
     and_then (py_lower key) (\<lambda>lkey.
     and_then (py_get manifest_columns lkey (JDict [])) (\<lambda>manifest_column.
     and_then (get_or manifest_column ''description'' JNull) (\<lambda>description0.
     and_then (if description0 = JNull then get_or ccolumn ''comment'' JNull
               else Inr description0) (\<lambda>description.
     and_then (item ccolumn ''index'') (\<lambda>index.
       let col = \<lparr>col_name = name,
                  col_description = (if truthy description then Some description else None),
                  col_dataType = col_type,
                  col_dataLength = 1,
                  col_ordinalPosition = index\<rparr>
       in if valid_Column env col then Inr col else Inl ValidationError)))))))"

text \<open>
  The loop over the keys of the catalog columns. What is outside the \<open>try\<close>
  (\<open>ccolumns[key]\<close>, \<open>ccolumn["name"].lower()\<close>) ends the function when it raises.
\<close>

fun columns_loop ::
  "'c collaborators \<Rightarrow> json \<Rightarrow> json \<Rightarrow> column list \<Rightarrow> json list \<Rightarrow> py_error + column list" where
  "columns_loop env manifest_columns ccolumns columns [] = Inr columns"
| "columns_loop env manifest_columns ccolumns columns (key # keys) =
     and_then (py_getitem ccolumns key) (\<lambda>ccolumn.
     and_then (item ccolumn ''name'') (\<lambda>n.
     and_then (py_lower n) (\<lambda>name.
       case parse_column env manifest_columns key ccolumn name of
         Inl exc \<Rightarrow> columns_loop env manifest_columns ccolumns columns keys
       | Inr col \<Rightarrow> columns_loop env manifest_columns ccolumns (columns @ [col]) keys)))"

definition parse_data_model_columns ::
  "'c collaborators \<Rightarrow> json \<Rightarrow> json \<Rightarrow> json \<Rightarrow> py_error + column list" where
  "parse_data_model_columns env model_name mnode cnode =
     and_then (get_or cnode ''columns'' JNull) (\<lambda>ccolumns.
     and_then (get_or mnode ''columns'' (JDict [])) (\<lambda>manifest_columns.
     and_then (py_iter ccolumns) (\<lambda>keys.
       columns_loop env manifest_columns ccolumns [] keys)))"

section \<open>Data models\<close>

definition alias_or_name :: "json \<Rightarrow> py_error + json" where
  "alias_or_name mnode =
     and_then (in_keys ''alias'' mnode) (\<lambda>has_alias.
       if has_alias then item mnode ''alias'' else item mnode ''name'')"

text \<open>The owner of a model: a user of that name, else a team, else none.\<close>

definition resolve_owner ::
  "'c collaborators \<Rightarrow> 'c \<Rightarrow> json \<Rightarrow> py_error + entity_reference option" where
  "resolve_owner env c dbt_owner =
     (if truthy dbt_owner then
        let owner_name = ''*'' @ py_str env dbt_owner @ ''*'' in
        and_then (fqn_build_user env c owner_name) (\<lambda>user_owner_fqn.
          case found user_owner_fqn of
            Some u \<Rightarrow> get_entity_reference env c User u
          | None \<Rightarrow>
              and_then (fqn_build_team env c owner_name) (\<lambda>team_owner_fqn.
                case found team_owner_fqn of
                  Some t \<Rightarrow> get_entity_reference env c Team t
                | None \<Rightarrow> Inr None))
      else Inr None)"

text \<open>
  What one turn of the loop of \<open>_parse_data_model\<close> does to \<open>self\<close> when its \<open>try\<close>
  raises nothing: the node goes to \<open>dbt_tests\<close>, or its model is stored under the name
  that \<open>fqn.build\<close> returned.
\<close>

datatype node_outcome = RoutedTest | Resolved "string option" data_model

text \<open>
  The rest of the \<open>try\<close> for a node that is no test: the model and the name it is
  stored under.
\<close>

definition assemble_model ::
  "'c collaborators \<Rightarrow> 'c \<Rightarrow> dbt_mixin \<Rightarrow> json \<Rightarrow> json \<Rightarrow> column list
     \<Rightarrow> py_error + node_outcome" where
  "assemble_model env c self mnode cnode columns =
     and_then (parse_data_model_upstream env c self mnode) (\<lambda>upstream_nodes.
     and_then (alias_or_name mnode) (\<lambda>model_name.
     and_then (item mnode ''database'') (\<lambda>database.
     and_then (item mnode ''schema'') (\<lambda>schema.
     and_then (get_or mnode ''raw_sql'' (JStr [])) (\<lambda>raw_sql.
     and_then (get_or mnode ''description'' JNull) (\<lambda>description.
     and_then (item cnode ''metadata'') (\<lambda>metadata.
     and_then (get_or metadata ''owner'' JNull) (\<lambda>dbt_owner.
     and_then (resolve_owner env c dbt_owner) (\<lambda>owner.
     and_then (item mnode ''root_path'') (\<lambda>root_path.
     and_then (item mnode ''original_file_path'') (\<lambda>original_file_path.
     and_then (get_or mnode ''compiled_sql'' raw_sql) (\<lambda>sql.
       let model = \<lparr>dm_modelType = ''DBT'',
                    dm_description = (if truthy description then Some description else None),
                    dm_path = py_str env root_path @ ''/'' @ py_str env original_file_path,
                    dm_rawSql = raw_sql,
                    dm_sql = sql,
                    dm_columns = columns,
                    dm_upstream = fst upstream_nodes,
                    dm_owner = owner\<rparr>
       in if \<not> valid_DataModel env model then Inl ValidationError
          else
            and_then (fqn_build_data_model env c (serviceName env)
                        (or_default database) (or_default schema) model_name) (\<lambda>model_fqn.
              Inr (Resolved model_fqn model))))))))))))))"

text \<open>\<open>self.catalog_entities.get(key)\<close>.\<close>

definition catalog_node :: "dbt_mixin \<Rightarrow> string \<Rightarrow> json" where
  "catalog_node self key = (case map_of (catalog_entities self) key of None \<Rightarrow> JNull | Some v \<Rightarrow> v)"

text \<open>The columns of a node: none when the catalog has no node under the key.\<close>

definition node_columns :: "'c collaborators \<Rightarrow> json \<Rightarrow> json \<Rightarrow> json \<Rightarrow> py_error + column list" where
  "node_columns env name mnode cnode =
     (if truthy cnode then parse_data_model_columns env name mnode cnode else Inr [])"

text \<open>The body of the \<open>try\<close> of \<open>_parse_data_model\<close> for one entry.\<close>

definition resolve_node ::
  "'c collaborators \<Rightarrow> 'c \<Rightarrow> dbt_mixin \<Rightarrow> string \<Rightarrow> json \<Rightarrow> py_error + node_outcome" where
  "resolve_node env c self key mnode =
     and_then (alias_or_name mnode) (\<lambda>name.
     let cnode = catalog_node self key in
     and_then (node_columns env name mnode cnode) (\<lambda>columns.
     and_then (item mnode ''resource_type'') (\<lambda>resource_type.
       if resource_type = JStr ''test'' then Inr RoutedTest
       else assemble_model env c self mnode cnode columns)))"

definition parse_node ::
  "'c collaborators \<Rightarrow> 'c \<Rightarrow> dbt_mixin \<Rightarrow> string \<times> json \<Rightarrow> dbt_mixin" where
  "parse_node env c self entry =
     (case resolve_node env c self (fst entry) (snd entry) of
        Inl exc \<Rightarrow> self
      | Inr RoutedTest \<Rightarrow>
          self\<lparr>dbt_tests := AList.update (fst entry) (snd entry) (dbt_tests self)\<rparr>
      | Inr (Resolved model_fqn model) \<Rightarrow>
          self\<lparr>data_models := AList.update model_fqn model (data_models self)\<rparr>)"

text \<open>\<open>{**doc["nodes"], **doc["sources"]}\<close>.\<close>

definition merged_entities :: "json \<Rightarrow> py_error + (string \<times> json) list" where
  "merged_entities doc =
     and_then (item doc ''nodes'') (\<lambda>nodes.
     and_then (dict_items nodes) (\<lambda>a.
     and_then (item doc ''sources'') (\<lambda>sources.
     and_then (dict_items sources) (\<lambda>b. Inr (merge_dicts a b)))))"

text \<open>
  \<open>_parse_data_model\<close>: \<open>self\<close> afterwards, and the exception that leaves the method, if
  any (the two merges are outside every \<open>try\<close>).
\<close>

definition parse_data_model ::
  "'c collaborators \<Rightarrow> 'c \<Rightarrow> dbt_mixin \<Rightarrow> py_error option \<times> dbt_mixin" where
  "parse_data_model env c self =
     (if dbtConfigSource self \<and> truthy (dbt_manifest self) \<and> truthy (dbt_catalog self) then
        case merged_entities (dbt_manifest self) of
          Inl exc \<Rightarrow> (Some exc, self)
        | Inr m \<Rightarrow>
            let self1 = self\<lparr>manifest_entities := m\<rparr> in
            (case merged_entities (dbt_catalog self1) of
               Inl exc \<Rightarrow> (Some exc, self1)
             | Inr ca \<Rightarrow>
                 let self2 = self1\<lparr>catalog_entities := ca\<rparr> in
                 (None, foldl (parse_node env c) self2 (manifest_entities self2)))
      else (None, self))"

section \<open>Lineage\<close>

definition fqn_json :: "string option \<Rightarrow> json" where
  "fqn_json f = (case f of None \<Rightarrow> JNull | Some s \<Rightarrow> JStr s)"

text \<open>The body of the \<open>try\<close> of \<open>create_dbt_lineage\<close>: what one pair yields.\<close>

definition lineage_edge ::
  "'c collaborators \<Rightarrow> 'c \<Rightarrow> string option \<Rightarrow> string \<Rightarrow> py_error + request list" where
  "lineage_edge env c data_model_name upstream_node =
     and_then (get_by_name env c Table (JStr upstream_node)) (\<lambda>from_entity.
     and_then (get_by_name env c Table (fqn_json data_model_name)) (\<lambda>to_entity.
       case from_entity of
         None \<Rightarrow> Inr []
       | Some f \<Rightarrow>
           (case to_entity of
              None \<Rightarrow> Inr []
            | Some t \<Rightarrow>
                let r = AddLineageRequest
                          \<lparr>ref_id = entity_id f, ref_type = ''table''\<rparr>
                          \<lparr>ref_id = entity_id t, ref_type = ''table''\<rparr>
                in if valid_request env r then Inr [r] else Inl ValidationError)))"

text \<open>
  A generator runs interleaved with its consumer: \<open>sink\<close> is what the consumer does to
  the metadata server with a request before it asks for the next one. A run returns the
  requests it yielded, in order, and the server's state at its end.
\<close>

definition lineage_step ::
  "'c collaborators \<Rightarrow> ('c \<Rightarrow> request \<Rightarrow> 'c) \<Rightarrow> request list \<times> 'c \<Rightarrow> string option \<times> string
     \<Rightarrow> request list \<times> 'c" where
  "lineage_step env sink acc pair =
     (case lineage_edge env (snd acc) (fst pair) (snd pair) of
        Inl exc \<Rightarrow> acc
      | Inr rs \<Rightarrow> (fst acc @ rs, foldl sink (snd acc) rs))"

text \<open>The pairs the two nested loops visit, in order.\<close>

definition lineage_pairs :: "dbt_mixin \<Rightarrow> (string option \<times> string) list" where
  "lineage_pairs self =
     concat (map (\<lambda>m. map (\<lambda>upstream_node. (fst m, upstream_node)) (dm_upstream (snd m)))
       (data_models self))"

definition create_dbt_lineage ::
  "'c collaborators \<Rightarrow> ('c \<Rightarrow> request \<Rightarrow> 'c) \<Rightarrow> 'c \<Rightarrow> dbt_mixin \<Rightarrow> request list \<times> 'c" where
  "create_dbt_lineage env sink c self =
     foldl (lineage_step env sink) ([], c) (lineage_pairs self)"

section \<open>Test suites and test definitions\<close>

definition create_test_case_parameter_definitions :: "json \<Rightarrow> py_error + json" where
  "create_test_case_parameter_definitions dbt_test =
     and_then (item dbt_test ''test_metadata'') (\<lambda>md1.
     and_then (item md1 ''name'') (\<lambda>name.
     and_then (item dbt_test ''test_metadata'') (\<lambda>md2.
     and_then (item md2 ''name'') (\<lambda>displayName.
       Inr (JList [JDict [(''name'', name), (''displayName'', displayName),
                          (''required'', JBool False)]])))))"

text \<open>The first half of a turn of the loop: the suite of the test.\<close>

definition suite_request :: "'c collaborators \<Rightarrow> 'c \<Rightarrow> json \<Rightarrow> py_error + request list" where
  "suite_request env c dbt_test =
     and_then (item dbt_test ''meta'') (\<lambda>meta1.
     and_then (get_or meta1 ''test_suite_name'' (JStr ''DBT_TEST_SUITE'')) (\<lambda>test_suite_name.
     and_then (item dbt_test ''meta'') (\<lambda>meta2.
     and_then (get_or meta2 ''test_suite_desciption'' (JStr [])) (\<lambda>test_suite_desciption.
     and_then (get_by_name env c TestSuite test_suite_name) (\<lambda>check_test_suite_exists.
       if check_test_suite_exists = None then
         let r = CreateTestSuiteRequest test_suite_name test_suite_desciption
         in if valid_request env r then Inr [r] else Inl ValidationError
       else Inr [])))))"

text \<open>The second half: the definition of the test.\<close>

definition definition_request :: "'c collaborators \<Rightarrow> 'c \<Rightarrow> json \<Rightarrow> py_error + request list" where
  "definition_request env c dbt_test =
     and_then (item dbt_test ''name'') (\<lambda>name0.
     and_then (get_by_name env c TestDefinition name0) (\<lambda>check_test_definition_exists.
       if check_test_definition_exists = None then
         and_then (get_or dbt_test ''column_name'' JNull) (\<lambda>column_name.
         let entity_type = (if truthy column_name then COLUMN else TABLE) in
         and_then (item dbt_test ''name'') (\<lambda>name.
         and_then (item dbt_test ''description'') (\<lambda>description.
         and_then (create_test_case_parameter_definitions dbt_test) (\<lambda>params.
           let r = CreateTestDefinitionRequest name description entity_type params
           in if valid_request env r then Inr [r] else Inl ValidationError))))
       else Inr []))"

text \<open>
  The loop of \<open>create_dbt_tests_suite_definition\<close>. Its \<open>try\<close> is around the loop: the
  first exception ends the generator. The result is what was yielded, the server's state
  and the exception that the \<open>except\<close> logged, if any.
\<close>

fun suite_definition_loop ::
  "'c collaborators \<Rightarrow> ('c \<Rightarrow> request \<Rightarrow> 'c) \<Rightarrow> request list \<Rightarrow> 'c \<Rightarrow> json list
     \<Rightarrow> request list \<times> 'c \<times> py_error option" where
  "suite_definition_loop env sink out c [] = (out, c, None)"
| "suite_definition_loop env sink out c (dbt_test # rest) =
     (case suite_request env c dbt_test of
        Inl err \<Rightarrow> (out, c, Some err)
      | Inr rs \<Rightarrow>
          let c1 = foldl sink c rs in
          (case definition_request env c1 dbt_test of
             Inl err \<Rightarrow> (out @ rs, c1, Some err)
           | Inr ds \<Rightarrow> suite_definition_loop env sink (out @ rs @ ds) (foldl sink c1 ds) rest))"

definition create_dbt_tests_suite_definition ::
  "'c collaborators \<Rightarrow> ('c \<Rightarrow> request \<Rightarrow> 'c) \<Rightarrow> 'c \<Rightarrow> dbt_mixin
     \<Rightarrow> request list \<times> 'c \<times> py_error option" where
  "create_dbt_tests_suite_definition env sink c self =
     (if dbtConfigSource self \<and> truthy (dbt_manifest self) \<and> truthy (dbt_catalog self) then
        suite_definition_loop env sink [] c (map snd (dbt_tests self))
      else ([], c, None))"

text \<open>The names of the suites and of the definitions among yielded requests.\<close>

fun suite_names :: "request list \<Rightarrow> json list" where
  "suite_names [] = []"
| "suite_names (CreateTestSuiteRequest n d # rs) = n # suite_names rs"
| "suite_names (r # rs) = suite_names rs"

fun definition_names :: "request list \<Rightarrow> json list" where
  "definition_names [] = []"
| "definition_names (CreateTestDefinitionRequest n d t p # rs) = n # definition_names rs"
| "definition_names (r # rs) = definition_names rs"

section \<open>Timestamps\<close>

text \<open>
  A Python \<open>float\<close> is a binary64 number, written here as the rational it stands for.
  \<open>round_double\<close> rounds a rational to the nearest such number, ties to the even
  significand (53 bits). Overflow and subnormal numbers are left out: the values below
  are zero or between \<open>10\<^sup>-\<^sup>6\<close> and \<open>10\<^sup>1\<^sup>5\<close> in size.
\<close>

type_synonym py_float = rat

definition pow2 :: "int \<Rightarrow> rat" where
  "pow2 e = (if 0 \<le> e then 2 ^ nat e else 1 / 2 ^ nat (- e))"

text \<open>For \<open>q \<noteq> 0\<close>, the \<open>e\<close> with \<open>2\<^sup>e \<le> |q| < 2\<^sup>e\<^sup>+\<^sup>1\<close>.\<close>

definition binade :: "rat \<Rightarrow> int" where
  "binade q =
     (let a = fst (quotient_of \<bar>q\<bar>); b = snd (quotient_of \<bar>q\<bar>); k = bitlen a - bitlen b
      in if pow2 k \<le> \<bar>q\<bar> then k else k - 1)"

definition round_half_even :: "rat \<Rightarrow> int" where
  "round_half_even r =
     (let f = \<lfloor>r\<rfloor>; d = r - of_int f
      in if d < 1 / 2 then f else if 1 / 2 < d then f + 1 else if even f then f else f + 1)"

definition round_double :: "rat \<Rightarrow> py_float" where
  "round_double q =
     (if q = 0 then 0
      else let e = binade q - 52 in of_int (round_half_even (q / pow2 e)) * pow2 e)"

text \<open>\<open>int(x)\<close> of a float: towards zero.\<close>

definition py_int :: "py_float \<Rightarrow> int" where
  "py_int x = (if 0 \<le> x then \<lfloor>x\<rfloor> else \<lceil>x\<rceil>)"

record datetime =
  year :: int
  month :: int
  day :: int
  hour :: int
  minute :: int
  second :: int
  microsecond :: int

record timedelta =
  days :: int
  seconds :: int
  microseconds :: int

definition is_leap :: "int \<Rightarrow> bool" where
  "is_leap y = (y mod 4 = 0 \<and> (y mod 100 \<noteq> 0 \<or> y mod 400 = 0))"

definition days_before_year :: "int \<Rightarrow> int" where
  "days_before_year y = (y - 1) * 365 + (y - 1) div 4 - (y - 1) div 100 + (y - 1) div 400"

definition days_in_month :: "int \<Rightarrow> int \<Rightarrow> int" where
  "days_in_month y m =
     (if m = 2 \<and> is_leap y then 29
      else [31, 28, 31, 30, 31, 30, 31, 31, 30, 31, 30, 31] ! nat (m - 1))"

definition days_before_month :: "int \<Rightarrow> int \<Rightarrow> int" where
  "days_before_month y m =
     [0, 31, 59, 90, 120, 151, 181, 212, 243, 273, 304, 334] ! nat (m - 1)
       + (if 2 < m \<and> is_leap y then 1 else 0)"

definition toordinal :: "datetime \<Rightarrow> int" where
  "toordinal dt = days_before_year (year dt) + days_before_month (year dt) (month dt) + day dt"

text \<open>\<open>dt - other\<close> for two naive datetimes: a normalised \<open>timedelta\<close>.\<close>

definition datetime_sub :: "datetime \<Rightarrow> datetime \<Rightarrow> timedelta" where
  "datetime_sub dt other =
     (let secs1 = second dt + minute dt * 60 + hour dt * 3600;
          secs2 = second other + minute other * 60 + hour other * 3600;
          us = ((toordinal dt - toordinal other) * 86400 + (secs1 - secs2)) * 1000000
                 + (microsecond dt - microsecond other)
      in \<lparr>days = us div 86400000000,
          seconds = us mod 86400000000 div 1000000,
          microseconds = us mod 1000000\<rparr>)"

definition total_seconds :: "timedelta \<Rightarrow> py_float" where
  "total_seconds delta =
     round_double
       (of_int ((days delta * 86400 + seconds delta) * 1000000 + microseconds delta) / 1000000)"

text \<open>\<open>datetime.utcfromtimestamp(0)\<close>.\<close>

definition epoch :: datetime where
  "epoch = \<lparr>year = 1970, month = 1, day = 1, hour = 0, minute = 0, second = 0, microsecond = 0\<rparr>"

definition unix_time :: "datetime \<Rightarrow> py_float" where
  "unix_time dt = (let delta = datetime_sub dt epoch in total_seconds delta)"

definition unix_time_millis :: "datetime \<Rightarrow> int" where
  "unix_time_millis dt = py_int (round_double (unix_time dt * 1000))"



text \<open>
  \<open>datetime.strptime(s, "%Y-%m-%dT%H:%M:%S.%fZ")\<close>. Every directive of the format
  stands before a character that is no digit, so a directive reads the whole run of
  digits before that character; the literal letters match in either case. A string that
  does not match, or that names no date, raises ValueError.
\<close>

definition is_digit :: "char \<Rightarrow> bool" where
  "is_digit c = (let n = (of_char c :: nat) in 48 \<le> n \<and> n \<le> 57)"

definition digits_val :: "string \<Rightarrow> int" where
  "digits_val s = foldl (\<lambda>a c. 10 * a + (int (of_char c) - 48)) 0 s"

definition directive :: "nat \<Rightarrow> nat \<Rightarrow> int \<Rightarrow> int \<Rightarrow> string \<Rightarrow> py_error + int \<times> string" where
  "directive min_len max_len lo hi s =
     (let ds = takeWhile is_digit s; v = digits_val ds
      in if min_len \<le> length ds \<and> length ds \<le> max_len \<and> lo \<le> v \<and> v \<le> hi
         then Inr (v, dropWhile is_digit s) else Inl ValueError)"

text \<open>\<open>%d\<close> also reads a space and one digit from 1 to 9.\<close>

definition directive_d :: "string \<Rightarrow> py_error + int \<times> string" where
  "directive_d s =
     (case s of
        [] \<Rightarrow> Inl ValueError
      | c # r \<Rightarrow> if c = CHR '' '' then directive 1 1 1 9 r else directive 1 2 1 31 s)"

text \<open>\<open>%f\<close>: one to six digits, padded with zeros on the right.\<close>

definition directive_f :: "string \<Rightarrow> py_error + int \<times> string" where
  "directive_f s =
     (let ds = takeWhile is_digit s
      in if 1 \<le> length ds \<and> length ds \<le> 6
         then Inr (digits_val (ds @ replicate (6 - length ds) CHR ''0''), dropWhile is_digit s)
         else Inl ValueError)"

definition literal :: "char \<Rightarrow> string \<Rightarrow> py_error + string" where
  "literal c s =
     (case s of
        [] \<Rightarrow> Inl ValueError
      | x # r \<Rightarrow> if lower_char x = lower_char c then Inr r else Inl ValueError)"

definition strptime :: "string \<Rightarrow> py_error + datetime" where
  "strptime s =
     and_then (directive 4 4 0 9999 s) (\<lambda>Y.
     and_then (literal CHR ''-'' (snd Y)) (\<lambda>s1.
     and_then (directive 1 2 1 12 s1) (\<lambda>m.
     and_then (literal CHR ''-'' (snd m)) (\<lambda>s2.
     and_then (directive_d s2) (\<lambda>d.
     and_then (literal CHR ''T'' (snd d)) (\<lambda>s3.
     and_then (directive 1 2 0 23 s3) (\<lambda>H.
     and_then (literal CHR '':'' (snd H)) (\<lambda>s4.
     and_then (directive 1 2 0 59 s4) (\<lambda>M.
     and_then (literal CHR '':'' (snd M)) (\<lambda>s5.
     and_then (directive 1 2 0 61 s5) (\<lambda>S.
     and_then (literal CHR ''.'' (snd S)) (\<lambda>s6.
     and_then (directive_f s6) (\<lambda>f.
     and_then (literal CHR ''Z'' (snd f)) (\<lambda>s7.
       if s7 = [] \<and> 1 \<le> fst Y \<and> fst d \<le> days_in_month (fst Y) (fst m) \<and> fst S \<le> 59
       then Inr \<lparr>year = fst Y, month = fst m, day = fst d, hour = fst H, minute = fst M,
                 second = fst S, microsecond = fst f\<rparr>
       else Inl ValueError))))))))))))))"

section \<open>Test results\<close>

text \<open>The status of a run-result record and the number that stands for it.\<close>

definition status_of :: "json \<Rightarrow> py_error + test_case_status \<times> string" where
  "status_of dbt_test_result =
     and_then (get_or dbt_test_result ''status'' JNull) (\<lambda>status1.
       if status1 = JStr ''success'' then Inr (Success, ''1'')
       else
         and_then (get_or dbt_test_result ''status'' JNull) (\<lambda>status2.
           if status2 = JStr ''failure'' then Inr (Failed, ''0'') else Inr (Aborted, ''-1'')))"

text \<open>One turn of the loop over the timings; the accumulator is \<open>dbt_test_completed_at\<close>.\<close>

definition timing_step :: "py_error + json \<Rightarrow> json \<Rightarrow> py_error + json" where
  "timing_step acc dbt_test_timing =
     and_then acc (\<lambda>dbt_test_completed_at.
     and_then (get_or dbt_test_timing ''name'' (JStr [])) (\<lambda>name.
       if name = JStr ''execute'' then get_or dbt_test_timing ''completed_at'' JNull
       else Inr dbt_test_completed_at))"

definition completed_at :: "json list \<Rightarrow> py_error + json" where
  "completed_at dbt_test_timings = foldl timing_step (Inr JNull) dbt_test_timings"

definition dbt_timestamp :: "json \<Rightarrow> py_error + int option" where
  "dbt_timestamp dbt_test_completed_at =
     (if truthy dbt_test_completed_at then
        (case dbt_test_completed_at of
           JStr s \<Rightarrow> and_then (strptime s) (\<lambda>dt. Inr (Some (unix_time_millis dt)))
         | _ \<Rightarrow> Inl TypeError)
      else Inr None)"

text \<open>
  The first part of the \<open>try\<close> of \<open>update_dbt_test_result\<close>: the \<open>TestCaseResult\<close> of a
  run-result record.
\<close>

definition test_case_result_of :: "'c collaborators \<Rightarrow> json \<Rightarrow> py_error + test_case_result" where
  "test_case_result_of env dbt_test_result =
     and_then (status_of dbt_test_result) (\<lambda>status.
     and_then (item dbt_test_result ''timing'') (\<lambda>dbt_test_timings.
     and_then (py_iter dbt_test_timings) (\<lambda>timings.
     and_then (completed_at timings) (\<lambda>dbt_test_completed_at.
     and_then (dbt_timestamp dbt_test_completed_at) (\<lambda>ts.
     and_then (get_or dbt_test_result ''unique_id'' JNull) (\<lambda>unique_id.
       let r = \<lparr>timestamp = ts,
                testCaseStatus = fst status,
                testResultValue = [(unique_id, snd status)]\<rparr>
       in if valid_TestCaseResult env r then Inr r else Inl ValidationError))))))"

text \<open>
  The loop over the dependency nodes of the test: the server's state after the results
  that were added, and the exception that ended the loop, if any.
\<close>

fun attach_loop ::
  "'c collaborators \<Rightarrow> dbt_mixin \<Rightarrow> json \<Rightarrow> json \<Rightarrow> test_case_result \<Rightarrow> 'c \<Rightarrow> json list
     \<Rightarrow> 'c \<times> py_error option" where
  "attach_loop env self dbt_test_result dbt_test_node test_case_result c [] = (c, None)"
| "attach_loop env self dbt_test_result dbt_test_node test_case_result c (node # nodes) =
     (case
        and_then (dict_get (manifest_entities self) node JNull) (\<lambda>model.
        and_then (get_or model ''database'' JNull) (\<lambda>database.
        and_then (get_or model ''schema'' JNull) (\<lambda>schema.
        and_then (get_or model ''name'' JNull) (\<lambda>table.
        and_then (get_or dbt_test_node ''column_name'' JNull) (\<lambda>column_name.
        and_then (item dbt_test_result ''unique_id'') (\<lambda>unique_id.
        and_then (dict_get (dbt_tests self) unique_id JNull) (\<lambda>test.
        and_then (item test ''name'') (\<lambda>test_case_name.
        and_then (fqn_build_test_case env c (serviceName env) database schema table
                    column_name test_case_name) (\<lambda>test_case_fqn.
          add_test_case_results env c test_case_result test_case_fqn)))))))))
      of
        Inl err \<Rightarrow> (c, Some err)
      | Inr c1 \<Rightarrow> attach_loop env self dbt_test_result dbt_test_node test_case_result c1 nodes)"

text \<open>The whole \<open>try\<close> for one run-result record.\<close>

definition attach_result ::
  "'c collaborators \<Rightarrow> dbt_mixin \<Rightarrow> 'c \<Rightarrow> json \<Rightarrow> 'c \<times> py_error option" where
  "attach_result env self c dbt_test_result =
     (case
        and_then (test_case_result_of env dbt_test_result) (\<lambda>test_case_result.
        and_then (item dbt_test_result ''unique_id'') (\<lambda>unique_id.
        and_then (dict_get (dbt_tests self) unique_id JNull) (\<lambda>dbt_test_node.
          if truthy dbt_test_node then
            and_then (item dbt_test_node ''depends_on'') (\<lambda>depends_on.
            and_then (item depends_on ''nodes'') (\<lambda>nodes.
            and_then (py_iter nodes) (\<lambda>ns.
              Inr (attach_loop env self dbt_test_result dbt_test_node test_case_result c ns))))
          else Inr (c, None))))
      of
        Inl err \<Rightarrow> (c, Some err)
      | Inr r \<Rightarrow> r)"

text \<open>
  \<open>update_dbt_test_result\<close>: the server's state and the exceptions logged, one per
  record that failed; or the exception that leaves the method.
\<close>

definition result_step ::
  "'c collaborators \<Rightarrow> dbt_mixin \<Rightarrow> 'c \<times> py_error list \<Rightarrow> json \<Rightarrow> 'c \<times> py_error list" where
  "result_step env self acc dbt_test_result =
     (case attach_result env self (fst acc) dbt_test_result of
        (c1, None) \<Rightarrow> (c1, snd acc)
      | (c1, Some err) \<Rightarrow> (c1, snd acc @ [err]))"

definition update_dbt_test_result ::
  "'c collaborators \<Rightarrow> dbt_mixin \<Rightarrow> 'c \<Rightarrow> py_error + 'c \<times> py_error list" where
  "update_dbt_test_result env self c =
     (if truthy (dbt_run_results self) then
        and_then (get_or (dbt_run_results self) ''results'' JNull) (\<lambda>results.
        and_then (py_iter results) (\<lambda>rs.
          Inr (foldl (result_step env self) (c, []) rs)))
      else Inr (c, []))"


section \<open>A small metadata server for the examples\<close>

text \<open>
  The server holds the names of its entities, by kind. A table or a model is named
  \<open>service.database.schema.name\<close>; no user and no team is known; every constructor
  accepts its arguments.
\<close>

type_synonym server = "(entity_kind \<times> json) list"

definition demo_text :: "json \<Rightarrow> string" where
  "demo_text v = (case v of JStr s \<Rightarrow> s | _ \<Rightarrow> ''?'')"

definition demo_fqn :: "string \<Rightarrow> json list \<Rightarrow> string" where
  "demo_fqn service parts = service @ concat (map (\<lambda>v. ''.'' @ demo_text v) parts)"

definition demo_env :: "server collaborators" where
  "demo_env =
     \<lparr>serviceName = ''svc'',
      get_column_type = (\<lambda>t. case t of JStr s \<Rightarrow> Inr s | _ \<Rightarrow> Inl TypeError),
      fqn_build_table = (\<lambda>c service db sc nm. Inr (Some (demo_fqn service [db, sc, nm]))),
      fqn_build_data_model = (\<lambda>c service db sc nm. Inr (Some (demo_fqn service [db, sc, nm]))),
      fqn_build_user = (\<lambda>c n. Inr None),
      fqn_build_team = (\<lambda>c n. Inr None),
      get_entity_reference = (\<lambda>c k f. Inr None),
      get_by_name = (\<lambda>c k n. Inr (if (k, n) \<in> set c then Some (Entity (demo_text n)) else None)),
      fqn_build_test_case =
        (\<lambda>c service db sc tb col nm. Inr (Some (demo_fqn service [db, sc, tb, col, nm]))),
      add_test_case_results = (\<lambda>c r f. Inr c),
      py_repr = (\<lambda>v. ''?''),
      valid_Column = (\<lambda>x. True),
      valid_DataModel = (\<lambda>x. True),
      valid_request = (\<lambda>x. True),
      valid_TestCaseResult = (\<lambda>x. True)\<rparr>"

text \<open>A consumer that stores what it is given before it asks for the next request.\<close>

definition demo_sink :: "server \<Rightarrow> request \<Rightarrow> server" where
  "demo_sink c r =
     (case r of
        CreateTestSuiteRequest n d \<Rightarrow> (TestSuite, n) # c
      | CreateTestDefinitionRequest n d t p \<Rightarrow> (TestDefinition, n) # c
      | _ \<Rightarrow> c)"

text \<open>A consumer that collects the requests and stores them later, as \<open>list(...)\<close> does.\<close>

definition collect_sink :: "server \<Rightarrow> request \<Rightarrow> server" where
  "collect_sink c r = c"

text \<open>
  A project with a source \<open>t1\<close>, a model \<open>t2\<close> that depends on it and on a source that
  the manifest does not hold, a model that the catalog does not hold, and a test.
\<close>

definition node_t1 :: json where
  "node_t1 = JDict
     [(''name'', JStr ''t1''), (''resource_type'', JStr ''source''),
      (''database'', JStr ''db''), (''schema'', JStr ''sch''),
      (''root_path'', JStr ''/p''), (''original_file_path'', JStr ''models/src.yml'')]"

definition node_t2 :: json where
  "node_t2 = JDict
     [(''name'', JStr ''t2''), (''resource_type'', JStr ''model''),
      (''database'', JStr ''db''), (''schema'', JStr ''sch''),
      (''depends_on'', JDict [(''nodes'', JList [JStr ''source.p.t1'', JStr ''source.p.gone''])]),
      (''columns'', JDict [(''id'', JDict [(''description'', JStr [])]),
                           (''total'', JDict [(''description'', JStr ''sum of the lines'')])]),
      (''root_path'', JStr ''/p''), (''original_file_path'', JStr ''models/t2.sql'')]"

definition node_orphan :: json where
  "node_orphan = JDict
     [(''name'', JStr ''orphan''), (''resource_type'', JStr ''model''),
      (''database'', JStr ''db''), (''schema'', JStr ''sch''),
      (''root_path'', JStr ''/p''), (''original_file_path'', JStr ''models/orphan.sql'')]"

definition node_test :: json where
  "node_test = JDict
     [(''name'', JStr ''not_null_t2_id''), (''resource_type'', JStr ''test''),
      (''description'', JStr []), (''meta'', JDict []), (''column_name'', JStr ''id''),
      (''test_metadata'', JDict [(''name'', JStr ''not_null''), (''kwargs'', JDict [])]),
      (''depends_on'', JDict [(''nodes'', JList [JStr ''model.p.t2''])])]"

definition ccolumn_id :: json where
  "ccolumn_id = JDict
     [(''name'', JStr ''ID''), (''type'', JStr ''NUMBER''), (''index'', JInt 1),
      (''comment'', JStr ''from the warehouse'')]"

definition ccolumn_total :: json where
  "ccolumn_total = JDict
     [(''name'', JStr ''TOTAL''), (''type'', JStr ''NUMBER''), (''index'', JInt 2),
      (''comment'', JStr ''from the warehouse'')]"

definition cnode_t1 :: json where
  "cnode_t1 = JDict [(''metadata'', JDict [(''owner'', JNull)]), (''columns'', JDict [])]"

definition cnode_t2 :: json where
  "cnode_t2 = JDict
     [(''metadata'', JDict [(''owner'', JNull)]),
      (''columns'', JDict [(''ID'', ccolumn_id), (''TOTAL'', ccolumn_total)])]"

definition demo_manifest :: json where
  "demo_manifest = JDict
     [(''nodes'', JDict [(''model.p.t2'', node_t2), (''model.p.orphan'', node_orphan),
                         (''test.p.not_null_t2_id'', node_test)]),
      (''sources'', JDict [(''source.p.t1'', node_t1)])]"

definition demo_catalog :: json where
  "demo_catalog = JDict
     [(''nodes'', JDict [(''model.p.t2'', cnode_t2)]),
      (''sources'', JDict [(''source.p.t1'', cnode_t1)])]"

definition demo_entities :: "(string \<times> json) list" where
  "demo_entities =
     [(''model.p.t2'', node_t2), (''model.p.orphan'', node_orphan),
      (''test.p.not_null_t2_id'', node_test), (''source.p.t1'', node_t1)]"

definition demo_catalog_entities :: "(string \<times> json) list" where
  "demo_catalog_entities = [(''model.p.t2'', cnode_t2), (''source.p.t1'', cnode_t1)]"

text \<open>\<open>self\<close> before \<open>_parse_data_model\<close>, and with the two merged maps.\<close>

definition demo_self :: dbt_mixin where
  "demo_self =
     \<lparr>dbtConfigSource = True, dbt_manifest = demo_manifest, dbt_catalog = demo_catalog,
      dbt_run_results = JNull, manifest_entities = [], catalog_entities = [],
      dbt_tests = [], data_models = []\<rparr>"

definition demo_merged :: dbt_mixin where
  "demo_merged =
     demo_self\<lparr>manifest_entities := demo_entities, catalog_entities := demo_catalog_entities\<rparr>"

text \<open>\<open>self\<close> after \<open>_parse_data_model\<close>: the test node, and the models of \<open>t2\<close> and \<open>t1\<close>.\<close>

definition model_t2 :: data_model where
  "model_t2 =
     \<lparr>dm_modelType = ''DBT'', dm_description = None, dm_path = ''/p/models/t2.sql'',
      dm_rawSql = JStr [], dm_sql = JStr [],
      dm_columns =
        [\<lparr>col_name = JStr ''id'', col_description = None, col_dataType = ''NUMBER'',
          col_dataLength = 1, col_ordinalPosition = JInt 1\<rparr>,
         \<lparr>col_name = JStr ''total'', col_description = Some (JStr ''sum of the lines''),
          col_dataType = ''NUMBER'', col_dataLength = 1, col_ordinalPosition = JInt 2\<rparr>],
      dm_upstream = [''svc.db.sch.t1''], dm_owner = None\<rparr>"

definition model_t1 :: data_model where
  "model_t1 =
     \<lparr>dm_modelType = ''DBT'', dm_description = None, dm_path = ''/p/models/src.yml'',
      dm_rawSql = JStr [], dm_sql = JStr [], dm_columns = [], dm_upstream = [],
      dm_owner = None\<rparr>"

definition demo_parsed :: dbt_mixin where
  "demo_parsed =
     demo_merged\<lparr>dbt_tests := [(''test.p.not_null_t2_id'', node_test)],
                 data_models := [(Some ''svc.db.sch.t2'', model_t2),
                                 (Some ''svc.db.sch.t1'', model_t1)]\<rparr>"

text \<open>A server that holds the two tables.\<close>

definition demo_tables :: server where
  "demo_tables = [(Table, JStr ''svc.db.sch.t1''), (Table, JStr ''svc.db.sch.t2'')]"

text \<open>A second test of the same suite, and a test written as a query (no \<open>test_metadata\<close>).\<close>

definition node_test_unique :: json where
  "node_test_unique = JDict
     [(''name'', JStr ''unique_t2_id''), (''resource_type'', JStr ''test''),
      (''description'', JStr []), (''meta'', JDict []), (''column_name'', JStr ''id''),
      (''test_metadata'', JDict [(''name'', JStr ''unique''), (''kwargs'', JDict [])]),
      (''depends_on'', JDict [(''nodes'', JList [JStr ''model.p.t2''])])]"

definition node_test_singular :: json where
  "node_test_singular = JDict
     [(''name'', JStr ''assert_total_positive''), (''resource_type'', JStr ''test''),
      (''description'', JStr []), (''meta'', JDict []),
      (''depends_on'', JDict [(''nodes'', JList [JStr ''model.p.t2''])])]"

definition two_tests :: dbt_mixin where
  "two_tests =
     demo_merged\<lparr>dbt_tests := [(''test.p.not_null_t2_id'', node_test),
                               (''test.p.unique_t2_id'', node_test_unique)]\<rparr>"

definition singular_first :: dbt_mixin where
  "singular_first =
     demo_merged\<lparr>dbt_tests := [(''test.p.assert_total_positive'', node_test_singular),
                               (''test.p.not_null_t2_id'', node_test)]\<rparr>"

definition singular_last :: dbt_mixin where
  "singular_last =
     demo_merged\<lparr>dbt_tests := [(''test.p.not_null_t2_id'', node_test),
                               (''test.p.assert_total_positive'', node_test_singular)]\<rparr>"

text \<open>A manifest whose only node is a test that has neither \<open>alias\<close> nor \<open>name\<close>.\<close>

definition node_test_nameless :: json where
  "node_test_nameless = JDict [(''resource_type'', JStr ''test''), (''meta'', JDict [])]"

definition nameless_self :: dbt_mixin where
  "nameless_self =
     demo_self\<lparr>dbt_manifest :=
       JDict [(''nodes'', JDict [(''test.p.nameless'', node_test_nameless)]),
              (''sources'', JDict [])]\<rparr>"


definition result_untimed :: json where
  "result_untimed = JDict
     [(''unique_id'', JStr ''test.p.not_null_t2_id''), (''status'', JStr ''skipped''),
      (''timing'', JList [])]"



section \<open>Basic facts\<close>

lemma and_then_Inr [simp]: "and_then (Inr x) f = f x"
  by (simp add: and_then_def)

lemma and_then_Inl [simp]: "and_then (Inl e) f = Inl e"
  by (simp add: and_then_def)

lemma and_then_eq_Inr:
  "and_then r f = Inr y \<longleftrightarrow> (\<exists>x. r = Inr x \<and> f x = Inr y)"
  by (cases r) simp_all

lemma and_then_InrE:
  assumes "and_then r f = Inr y"
  obtains x where "r = Inr x" and "f x = Inr y"
  using assms by (cases r) simp_all

lemma item_eq_Inr:
  "item x k = Inr v \<longleftrightarrow> (\<exists>d. x = JDict d \<and> map_of d k = Some v)"
  by (cases x) (auto simp: item_def split: option.splits)

lemma map_of_Some_in_keys: "map_of d k = Some v \<Longrightarrow> k \<in> set (map fst d)"
  by (metis map_of_eq_None_iff option.distinct(1) set_map)

lemma py_len_iter: "py_iter x = Inr ns \<Longrightarrow> py_len x = Inr (length ns)"
  by (cases x) auto

section \<open>Upstream resolution: the length of the result\<close>

lemma unknown_id_raises:
  "\<not> known_id d node \<Longrightarrow> \<exists>exc. dict_getitem d node = Inl exc"
proof (cases node)
  case (JStr k)
  assume "\<not> known_id d node"
  with JStr have "map_of d k = None"
    by (simp add: map_of_eq_None_iff)
  with JStr show ?thesis by simp
qed simp_all

lemma upstream_step_unknown:
  assumes "\<not> known_id (manifest_entities self) node"
  shows "\<exists>exc. upstream_step env c self acc node = (fst acc, snd acc @ [(node, exc)])"
proof -
  obtain exc where "dict_getitem (manifest_entities self) node = Inl exc"
    using unknown_id_raises[OF assms] by blast
  then show ?thesis
    by (simp add: upstream_step_def parent_fqn_of_def)
qed

lemma upstream_step_length:
  "length (fst (upstream_step env c self acc node)) \<le> Suc (length (fst acc))"
  by (simp add: upstream_step_def split: sum.splits option.splits)

lemma upstream_step_warnings:
  "set (snd acc) \<subseteq> set (snd (upstream_step env c self acc node))"
  by (auto simp: upstream_step_def split: sum.splits option.splits)

lemma upstream_loop_length:
  "length (fst (foldl (upstream_step env c self) acc ns)) \<le> length (fst acc) + length ns"
proof (induction ns arbitrary: acc)
  case Nil
  show ?case by simp
next
  case (Cons node ns)
  have "length (fst (foldl (upstream_step env c self) (upstream_step env c self acc node) ns))
          \<le> length (fst (upstream_step env c self acc node)) + length ns"
    by (rule Cons.IH)
  also have "\<dots> \<le> Suc (length (fst acc)) + length ns"
    using upstream_step_length[of env c self acc node] by simp
  finally show ?case by simp
qed

lemma upstream_loop_warnings:
  "set (snd acc) \<subseteq> set (snd (foldl (upstream_step env c self) acc ns))"
proof (induction ns arbitrary: acc)
  case Nil
  show ?case by simp
next
  case (Cons node ns)
  show ?case
    using upstream_step_warnings[of acc env c self node]
      Cons.IH[of "upstream_step env c self acc node"] by auto
qed

lemma upstream_loop_unknown:
  assumes "node \<in> set ns" and "\<not> known_id (manifest_entities self) node"
  shows "length (fst (foldl (upstream_step env c self) acc ns)) < length (fst acc) + length ns
         \<and> (\<exists>exc. (node, exc) \<in> set (snd (foldl (upstream_step env c self) acc ns)))"
  using assms(1)
proof (induction ns arbitrary: acc)
  case Nil
  then show ?case by simp
next
  case (Cons x ns)
  let ?acc = "upstream_step env c self acc x"
  show ?case
  proof (cases "x = node")
    case True
    obtain exc where st: "?acc = (fst acc, snd acc @ [(node, exc)])"
      using upstream_step_unknown[OF assms(2), of env c acc] True by blast
    have "length (fst (foldl (upstream_step env c self) ?acc ns)) \<le> length (fst ?acc) + length ns"
      by (rule upstream_loop_length)
    moreover have "(node, exc) \<in> set (snd (foldl (upstream_step env c self) ?acc ns))"
      using upstream_loop_warnings[of ?acc env c self ns] st by auto
    ultimately show ?thesis using st by auto
  next
    case False
    with Cons.prems have "node \<in> set ns" by simp
    from Cons.IH[OF this, of ?acc] upstream_step_length[of env c self acc x]
    show ?thesis by auto
  qed
qed

text \<open>
  C5. For a node whose \<open>depends_on.nodes\<close> is a sequence, \<open>_parse_data_model_upstream\<close>
  returns (it does not raise), its result is no longer than \<open>len(depends_on.nodes)\<close>,
  and for every dependency id that the merged manifest-entity map does not hold the
  result is strictly shorter and a warning with that id is logged.
\<close>

theorem upstream_length_bound:
  assumes "item mnode ''depends_on'' = Inr depends_on"
    and "item depends_on ''nodes'' = Inr nodes"
    and "py_iter nodes = Inr ns"
  shows "\<exists>upstream_nodes warnings.
           parse_data_model_upstream env c self mnode = Inr (upstream_nodes, warnings)
           \<and> py_len nodes = Inr (length ns)
           \<and> length upstream_nodes \<le> length ns
           \<and> (\<forall>node \<in> set ns. \<not> known_id (manifest_entities self) node \<longrightarrow>
                 length upstream_nodes < length ns \<and> (\<exists>exc. (node, exc) \<in> set warnings))"
proof -
  let ?r = "foldl (upstream_step env c self) ([], []) ns"
  from assms(1) obtain d where d: "mnode = JDict d" "map_of d ''depends_on'' = Some depends_on"
    by (auto simp: item_eq_Inr)
  from assms(2) obtain d' where d': "depends_on = JDict d'" "map_of d' ''nodes'' = Some nodes"
    by (auto simp: item_eq_Inr)
  have run: "parse_data_model_upstream env c self mnode = Inr ?r"
    using d d' assms map_of_Some_in_keys[OF d(2)] map_of_Some_in_keys[OF d'(2)]
    by (simp add: parse_data_model_upstream_def)
  have "length (fst ?r) \<le> length ns"
    using upstream_loop_length[of env c self "([], [])" ns] by simp
  moreover have "\<forall>node \<in> set ns. \<not> known_id (manifest_entities self) node \<longrightarrow>
      length (fst ?r) < length ns \<and> (\<exists>exc. (node, exc) \<in> set (snd ?r))"
    using upstream_loop_unknown[of _ ns self env c "([], [])"] by simp
  ultimately show ?thesis
    using run py_len_iter[OF assms(3)] by (intro exI[of _ "fst ?r"] exI[of _ "snd ?r"]) simp
qed

text \<open>The model \<open>t2\<close> names two dependencies; the manifest holds one of them.\<close>

theorem upstream_length_bound_witness:
  "item node_t2 ''depends_on''
     = Inr (JDict [(''nodes'', JList [JStr ''source.p.t1'', JStr ''source.p.gone''])])
   \<and> \<not> known_id (manifest_entities demo_merged) (JStr ''source.p.gone'')
   \<and> (\<exists>upstream_nodes warnings.
         parse_data_model_upstream demo_env [] demo_merged node_t2
           = Inr (upstream_nodes, warnings)
         \<and> length upstream_nodes < 2
         \<and> (\<exists>exc. (JStr ''source.p.gone'', exc) \<in> set warnings))"
proof -
  let ?dep = "JDict [(''nodes'', JList [JStr ''source.p.t1'', JStr ''source.p.gone''])]"
  let ?ns = "[JStr ''source.p.t1'', JStr ''source.p.gone'']"
  have h1: "item node_t2 ''depends_on'' = Inr ?dep"
    by (simp add: node_t2_def item_def)
  have h2: "item ?dep ''nodes'' = Inr (JList ?ns)"
    by (simp add: item_def)
  have h3: "py_iter (JList ?ns) = Inr ?ns"
    by simp
  have unknown: "\<not> known_id (manifest_entities demo_merged) (JStr ''source.p.gone'')"
    by (simp add: demo_merged_def demo_entities_def)
  from upstream_length_bound[OF h1 h2 h3, of demo_env "[]" demo_merged]
  obtain upstream_nodes warnings where
    r: "parse_data_model_upstream demo_env [] demo_merged node_t2 = Inr (upstream_nodes, warnings)"
    and b: "\<forall>node \<in> set ?ns. \<not> known_id (manifest_entities demo_merged) node \<longrightarrow>
              length upstream_nodes < length ?ns \<and> (\<exists>exc. (node, exc) \<in> set warnings)"
    by blast
  from b unknown have "length upstream_nodes < 2 \<and> (\<exists>exc. (JStr ''source.p.gone'', exc) \<in> set warnings)"
    by simp
  with r h1 unknown show ?thesis by blast
qed

section \<open>Column resolution: the description\<close>

lemma parse_column_description:
  assumes "parse_column env manifest_columns key ccolumn name = Inr col"
  shows "\<exists>lkey mcol md.
           py_lower key = Inr lkey
           \<and> py_get manifest_columns lkey (JDict []) = Inr mcol
           \<and> get_or mcol ''description'' JNull = Inr md
           \<and> (if md = JNull
               then \<exists>cm. get_or ccolumn ''comment'' JNull = Inr cm
                      \<and> col_description col = (if truthy cm then Some cm else None)
               else col_description col = (if truthy md then Some md else None))"
proof -
  from assms obtain ctype col_type lkey mcol md d index where
    "item ccolumn ''type'' = Inr ctype" "get_column_type env ctype = Inr col_type"
    and k: "py_lower key = Inr lkey" "py_get manifest_columns lkey (JDict []) = Inr mcol"
      "get_or mcol ''description'' JNull = Inr md"
    and d: "(if md = JNull then get_or ccolumn ''comment'' JNull else Inr md) = Inr d"
    and "item ccolumn ''index'' = Inr index"
    and c: "(let col = \<lparr>col_name = name,
                  col_description = (if truthy d then Some d else None),
                  col_dataType = col_type,
                  col_dataLength = 1,
                  col_ordinalPosition = index\<rparr>
       in if valid_Column env col then Inr col else Inl ValidationError) = Inr col"
    unfolding parse_column_def by (elim and_then_InrE) blast
  from c have cd: "col_description col = (if truthy d then Some d else None)"
    by (auto simp: Let_def split: if_splits)
  show ?thesis
  proof (intro exI conjI)
    show "py_lower key = Inr lkey" "py_get manifest_columns lkey (JDict []) = Inr mcol"
      "get_or mcol ''description'' JNull = Inr md" by (rule k)+
    show "if md = JNull
               then \<exists>cm. get_or ccolumn ''comment'' JNull = Inr cm
                      \<and> col_description col = (if truthy cm then Some cm else None)
               else col_description col = (if truthy md then Some md else None)"
      using d cd by (cases "md = JNull") auto
  qed
qed

text \<open>
  C7. The description of a resolved column: with \<open>md\<close> the description of the manifest
  column under the lower-cased catalog key (\<open>None\<close> when there is none), the column has
  \<open>md\<close> when \<open>md\<close> is not \<open>None\<close>, else the catalog comment; a value that is empty or
  \<open>None\<close> is stored as none. A manifest text that is not empty is always the result.
  The result is a function of the pair of columns.
\<close>

theorem column_description_precedence:
  assumes "parse_column env manifest_columns key ccolumn name = Inr col"
  shows "\<exists>lkey mcol md.
           py_lower key = Inr lkey
           \<and> py_get manifest_columns lkey (JDict []) = Inr mcol
           \<and> get_or mcol ''description'' JNull = Inr md
           \<and> (md \<noteq> JNull \<longrightarrow> col_description col = (if truthy md then Some md else None))
           \<and> (\<forall>s. md = JStr s \<and> s \<noteq> [] \<longrightarrow> col_description col = Some (JStr s))
           \<and> (md = JNull \<longrightarrow>
                 (\<exists>cm. get_or ccolumn ''comment'' JNull = Inr cm
                    \<and> col_description col = (if truthy cm then Some cm else None)))"
proof -
  from parse_column_description[OF assms] obtain lkey mcol md where
    k: "py_lower key = Inr lkey" "py_get manifest_columns lkey (JDict []) = Inr mcol"
       "get_or mcol ''description'' JNull = Inr md"
    and d: "if md = JNull
               then \<exists>cm. get_or ccolumn ''comment'' JNull = Inr cm
                      \<and> col_description col = (if truthy cm then Some cm else None)
               else col_description col = (if truthy md then Some md else None)"
    by blast
  show ?thesis
  proof (intro exI conjI)
    show "py_lower key = Inr lkey" by (rule k)
    show "py_get manifest_columns lkey (JDict []) = Inr mcol" by (rule k)
    show "get_or mcol ''description'' JNull = Inr md" by (rule k)
    show "md \<noteq> JNull \<longrightarrow> col_description col = (if truthy md then Some md else None)"
      using d by simp
    show "\<forall>s. md = JStr s \<and> s \<noteq> [] \<longrightarrow> col_description col = Some (JStr s)"
      using d by auto
    show "md = JNull \<longrightarrow>
            (\<exists>cm. get_or ccolumn ''comment'' JNull = Inr cm
               \<and> col_description col = (if truthy cm then Some cm else None))"
      using d by simp
  qed
qed

lemma parse_column_total:
  "parse_column demo_env (JDict [(''id'', JDict [(''description'', JStr [])]),
                                 (''total'', JDict [(''description'', JStr ''sum of the lines'')])])
     (JStr ''TOTAL'') ccolumn_total (JStr ''total'')
   = Inr \<lparr>col_name = JStr ''total'', col_description = Some (JStr ''sum of the lines''),
          col_dataType = ''NUMBER'', col_dataLength = 1, col_ordinalPosition = JInt 2\<rparr>"
  by (simp add: parse_column_def demo_env_def ccolumn_total_def item_def get_or_def lower_char_def)

lemma parse_column_id:
  "parse_column demo_env (JDict [(''id'', JDict [(''description'', JStr [])]),
                                 (''total'', JDict [(''description'', JStr ''sum of the lines'')])])
     (JStr ''ID'') ccolumn_id (JStr ''id'')
   = Inr \<lparr>col_name = JStr ''id'', col_description = None,
          col_dataType = ''NUMBER'', col_dataLength = 1, col_ordinalPosition = JInt 1\<rparr>"
  by (simp add: parse_column_def demo_env_def ccolumn_id_def item_def get_or_def lower_char_def)

text \<open>
  The column \<open>TOTAL\<close> has a text in the manifest and a comment in the catalog: the
  manifest text is the description.
\<close>

theorem column_description_precedence_witness:
  "get_or ccolumn_total ''comment'' JNull = Inr (JStr ''from the warehouse'')
   \<and> (\<exists>col. parse_column demo_env
                (JDict [(''id'', JDict [(''description'', JStr [])]),
                        (''total'', JDict [(''description'', JStr ''sum of the lines'')])])
                (JStr ''TOTAL'') ccolumn_total (JStr ''total'') = Inr col
           \<and> col_description col = Some (JStr ''sum of the lines''))"
proof -
  let ?mc = "JDict [(''id'', JDict [(''description'', JStr [])]),
                    (''total'', JDict [(''description'', JStr ''sum of the lines'')])]"
  let ?col = "\<lparr>col_name = JStr ''total'', col_description = Some (JStr ''sum of the lines''),
          col_dataType = ''NUMBER'', col_dataLength = 1, col_ordinalPosition = JInt 2\<rparr>"
  from column_description_precedence[OF parse_column_total]
  obtain lkey mcol md where
    k: "py_lower (JStr ''TOTAL'') = Inr lkey" "py_get ?mc lkey (JDict []) = Inr mcol"
       "get_or mcol ''description'' JNull = Inr md"
    and w: "\<forall>s. md = JStr s \<and> s \<noteq> [] \<longrightarrow> col_description ?col = Some (JStr s)"
    by blast
  from k have "md = JStr ''sum of the lines''"
    by (auto simp: lower_char_def get_or_def)
  with w have "col_description ?col = Some (JStr ''sum of the lines'')"
    by simp
  moreover have "get_or ccolumn_total ''comment'' JNull = Inr (JStr ''from the warehouse'')"
    by (simp add: ccolumn_total_def get_or_def)
  ultimately show ?thesis
    using parse_column_total by blast
qed

text \<open>
  C10. When the manifest column under the lower-cased catalog key has the empty string
  as its description, the resolved column has no description, whatever the comment of
  the catalog column is.
\<close>

theorem empty_manifest_description:
  assumes "parse_column env manifest_columns key ccolumn name = Inr col"
    and "py_lower key = Inr lkey"
    and "py_get manifest_columns lkey (JDict []) = Inr mcol"
    and "get_or mcol ''description'' JNull = Inr (JStr [])"
  shows "col_description col = None"
  using parse_column_description[OF assms(1)] assms(2-4) by auto

text \<open>
  The column \<open>ID\<close> has the empty string in the manifest and a comment in the catalog:
  it has no description.
\<close>

theorem empty_manifest_description_witness:
  "get_or ccolumn_id ''comment'' JNull = Inr (JStr ''from the warehouse'')
   \<and> (\<exists>col. parse_column demo_env
                (JDict [(''id'', JDict [(''description'', JStr [])]),
                        (''total'', JDict [(''description'', JStr ''sum of the lines'')])])
                (JStr ''ID'') ccolumn_id (JStr ''id'') = Inr col
           \<and> col_description col = None)"
proof -
  let ?mc = "JDict [(''id'', JDict [(''description'', JStr [])]),
                    (''total'', JDict [(''description'', JStr ''sum of the lines'')])]"
  have l: "py_lower (JStr ''ID'') = Inr (JStr ''id'')"
    by (simp add: lower_char_def)
  have m: "py_get ?mc (JStr ''id'') (JDict []) = Inr (JDict [(''description'', JStr [])])"
    by simp
  have e: "get_or (JDict [(''description'', JStr [])]) ''description'' JNull = Inr (JStr [])"
    by (simp add: get_or_def)
  have c: "get_or ccolumn_id ''comment'' JNull = Inr (JStr ''from the warehouse'')"
    by (simp add: ccolumn_id_def get_or_def)
  from empty_manifest_description[OF parse_column_id l m e] c parse_column_id
  show ?thesis by blast
qed

section \<open>The timestamp of a completion time\<close>

text \<open>
  C9. The completion time \<open>2023-01-01T00:00:00.000000Z\<close>, read by \<open>strptime\<close> and
  converted by \<open>unix_time_millis\<close>, is the epoch millisecond 1672531200000.
\<close>

theorem timestamp_of_2023:
  "and_then (strptime ''2023-01-01T00:00:00.000000Z'') (\<lambda>dt. Inr (unix_time_millis dt))
     = Inr 1672531200000"
  by code_simp

section \<open>Lineage: an edge needs both tables\<close>

lemma lineage_edge_cases:
  assumes "lineage_edge env c data_model_name upstream_node = Inr rs"
  shows "rs = []
         \<or> (\<exists>f t. get_by_name env c Table (JStr upstream_node) = Inr (Some f)
                \<and> get_by_name env c Table (fqn_json data_model_name) = Inr (Some t)
                \<and> rs = [AddLineageRequest \<lparr>ref_id = entity_id f, ref_type = ''table''\<rparr>
                                           \<lparr>ref_id = entity_id t, ref_type = ''table''\<rparr>])"
proof -
  from assms obtain from_entity to_entity where
    f: "get_by_name env c Table (JStr upstream_node) = Inr from_entity"
    and t: "get_by_name env c Table (fqn_json data_model_name) = Inr to_entity"
    and r: "(case from_entity of
               None \<Rightarrow> Inr []
             | Some f \<Rightarrow>
                 (case to_entity of
                    None \<Rightarrow> Inr []
                  | Some t \<Rightarrow>
                      let r = AddLineageRequest
                                \<lparr>ref_id = entity_id f, ref_type = ''table''\<rparr>
                                \<lparr>ref_id = entity_id t, ref_type = ''table''\<rparr>
                      in if valid_request env r then Inr [r] else Inl ValidationError)) = Inr rs"
    unfolding lineage_edge_def by (elim and_then_InrE) blast
  show ?thesis
  proof (cases from_entity)
    case None
    with r show ?thesis by simp
  next
    case (Some fe)
    show ?thesis
    proof (cases to_entity)
      case None
      with r Some show ?thesis by simp
    next
      case (Some te)
      with r \<open>from_entity = Some fe\<close> f t show ?thesis
        by (auto simp: Let_def split: if_splits)
    qed
  qed
qed

lemma lineage_loop_sound:
  assumes "r \<in> set (fst (foldl (lineage_step env sink) acc pairs))"
  shows "r \<in> set (fst acc)
         \<or> (\<exists>name up c. (name, up) \<in> set pairs \<and> lineage_edge env c name up = Inr [r])"
  using assms
proof (induction pairs arbitrary: acc)
  case Nil
  then show ?case by simp
next
  case (Cons p pairs)
  from Cons.prems have "r \<in> set (fst (foldl (lineage_step env sink) (lineage_step env sink acc p) pairs))"
    by simp
  from Cons.IH[OF this] show ?case
  proof
    assume a: "r \<in> set (fst (lineage_step env sink acc p))"
    show ?thesis
    proof (cases "lineage_edge env (snd acc) (fst p) (snd p)")
      case (Inl exc)
      with a show ?thesis by (simp add: lineage_step_def)
    next
      case (Inr rs)
      with a have "r \<in> set (fst acc) \<or> r \<in> set rs"
        by (auto simp: lineage_step_def)
      then show ?thesis
      proof
        assume "r \<in> set rs"
        with lineage_edge_cases[OF Inr] have "rs = [r]" by auto
        with Inr have "(fst p, snd p) \<in> set (p # pairs)
                        \<and> lineage_edge env (snd acc) (fst p) (snd p) = Inr [r]"
          by simp
        then show ?thesis by blast
      qed simp
    qed
  next
    assume "\<exists>name up c. (name, up) \<in> set pairs \<and> lineage_edge env c name up = Inr [r]"
    then show ?thesis by auto
  qed
qed

lemma pairs_of_models:
  "(name, up) \<in> set (concat (map (\<lambda>m. map (\<lambda>upstream_node. (fst m, upstream_node))
                                           (dm_upstream (snd m))) ms))
     \<longleftrightarrow> (\<exists>data_model. (name, data_model) \<in> set ms \<and> up \<in> set (dm_upstream data_model))"
proof (induction ms)
  case Nil
  show ?case by simp
next
  case (Cons m ms)
  obtain n dm where m: "m = (n, dm)" by (cases m)
  show ?case
    unfolding m using Cons.IH by (simp add: image_iff) blast
qed

lemma lineage_pairs_iff:
  "(name, up) \<in> set (lineage_pairs self)
     \<longleftrightarrow> (\<exists>data_model. (name, data_model) \<in> set (data_models self)
                          \<and> up \<in> set (dm_upstream data_model))"
  unfolding lineage_pairs_def by (rule pairs_of_models)

text \<open>
  C6. What the body of the loop yields for one pair is nothing, or one request, and one
  request only when both lookups returned an entity: the edge from the upstream entity
  to the downstream entity, both of type \<open>table\<close>. Every request that a run of
  \<open>create_dbt_lineage\<close> yields is such an edge, of a data model and one of its upstream
  names, in the state of the server in which the pair was examined.
\<close>

theorem lineage_edges_resolved:
  "(\<forall>rs. lineage_edge env c data_model_name upstream_node = Inr rs \<longrightarrow>
      rs = []
      \<or> (\<exists>f t. get_by_name env c Table (JStr upstream_node) = Inr (Some f)
             \<and> get_by_name env c Table (fqn_json data_model_name) = Inr (Some t)
             \<and> rs = [AddLineageRequest \<lparr>ref_id = entity_id f, ref_type = ''table''\<rparr>
                                        \<lparr>ref_id = entity_id t, ref_type = ''table''\<rparr>]))
   \<and> (\<forall>r \<in> set (fst (create_dbt_lineage env sink c0 self)).
        \<exists>name data_model up c' f t.
          (name, data_model) \<in> set (data_models self)
          \<and> up \<in> set (dm_upstream data_model)
          \<and> get_by_name env c' Table (JStr up) = Inr (Some f)
          \<and> get_by_name env c' Table (fqn_json name) = Inr (Some t)
          \<and> r = AddLineageRequest \<lparr>ref_id = entity_id f, ref_type = ''table''\<rparr>
                                   \<lparr>ref_id = entity_id t, ref_type = ''table''\<rparr>)"
proof (intro conjI allI impI ballI)
  fix rs
  assume "lineage_edge env c data_model_name upstream_node = Inr rs"
  then show "rs = []
      \<or> (\<exists>f t. get_by_name env c Table (JStr upstream_node) = Inr (Some f)
             \<and> get_by_name env c Table (fqn_json data_model_name) = Inr (Some t)
             \<and> rs = [AddLineageRequest \<lparr>ref_id = entity_id f, ref_type = ''table''\<rparr>
                                        \<lparr>ref_id = entity_id t, ref_type = ''table''\<rparr>])"
    by (rule lineage_edge_cases)
next
  fix r
  assume "r \<in> set (fst (create_dbt_lineage env sink c0 self))"
  then obtain name up c' where
    p: "(name, up) \<in> set (lineage_pairs self)" and e: "lineage_edge env c' name up = Inr [r]"
    using lineage_loop_sound[of r env sink "([], c0)" "lineage_pairs self"]
    by (auto simp: create_dbt_lineage_def)
  from p obtain data_model where
    m: "(name, data_model) \<in> set (data_models self)" "up \<in> set (dm_upstream data_model)"
    by (auto simp: lineage_pairs_iff)
  from lineage_edge_cases[OF e] obtain f t where
    "get_by_name env c' Table (JStr up) = Inr (Some f)"
    "get_by_name env c' Table (fqn_json name) = Inr (Some t)"
    "r = AddLineageRequest \<lparr>ref_id = entity_id f, ref_type = ''table''\<rparr>
                           \<lparr>ref_id = entity_id t, ref_type = ''table''\<rparr>"
    by auto
  with m show "\<exists>name data_model up c' f t.
          (name, data_model) \<in> set (data_models self)
          \<and> up \<in> set (dm_upstream data_model)
          \<and> get_by_name env c' Table (JStr up) = Inr (Some f)
          \<and> get_by_name env c' Table (fqn_json name) = Inr (Some t)
          \<and> r = AddLineageRequest \<lparr>ref_id = entity_id f, ref_type = ''table''\<rparr>
                                   \<lparr>ref_id = entity_id t, ref_type = ''table''\<rparr>"
    by blast
qed

lemma demo_lineage_edge:
  "lineage_edge demo_env demo_tables (Some ''svc.db.sch.t2'') ''svc.db.sch.t1''
     = Inr [AddLineageRequest \<lparr>ref_id = ''svc.db.sch.t1'', ref_type = ''table''\<rparr>
                              \<lparr>ref_id = ''svc.db.sch.t2'', ref_type = ''table''\<rparr>]"
  by (simp add: lineage_edge_def demo_env_def demo_tables_def fqn_json_def demo_text_def)

lemma demo_lineage_run:
  "fst (create_dbt_lineage demo_env demo_sink demo_tables demo_parsed)
     = [AddLineageRequest \<lparr>ref_id = ''svc.db.sch.t1'', ref_type = ''table''\<rparr>
                          \<lparr>ref_id = ''svc.db.sch.t2'', ref_type = ''table''\<rparr>]"
  by (simp add: create_dbt_lineage_def lineage_pairs_def demo_parsed_def demo_merged_def
      demo_self_def model_t1_def model_t2_def lineage_step_def demo_lineage_edge demo_sink_def)

text \<open>
  With both tables on the server, the run over the parsed project yields the edge from
  \<open>t1\<close> to \<open>t2\<close>, and the theorem names the two entities found.
\<close>

theorem lineage_edges_resolved_witness:
  "fst (create_dbt_lineage demo_env demo_sink demo_tables demo_parsed)
     = [AddLineageRequest \<lparr>ref_id = ''svc.db.sch.t1'', ref_type = ''table''\<rparr>
                          \<lparr>ref_id = ''svc.db.sch.t2'', ref_type = ''table''\<rparr>]
   \<and> (\<exists>name data_model up c' f t.
          (name, data_model) \<in> set (data_models demo_parsed)
          \<and> up \<in> set (dm_upstream data_model)
          \<and> get_by_name demo_env c' Table (JStr up) = Inr (Some f)
          \<and> get_by_name demo_env c' Table (fqn_json name) = Inr (Some t)
          \<and> AddLineageRequest \<lparr>ref_id = ''svc.db.sch.t1'', ref_type = ''table''\<rparr>
                               \<lparr>ref_id = ''svc.db.sch.t2'', ref_type = ''table''\<rparr>
              = AddLineageRequest \<lparr>ref_id = entity_id f, ref_type = ''table''\<rparr>
                                  \<lparr>ref_id = entity_id t, ref_type = ''table''\<rparr>)"
proof -
  let ?r = "AddLineageRequest \<lparr>ref_id = ''svc.db.sch.t1'', ref_type = ''table''\<rparr>
                              \<lparr>ref_id = ''svc.db.sch.t2'', ref_type = ''table''\<rparr>"
  have "?r \<in> set (fst (create_dbt_lineage demo_env demo_sink demo_tables demo_parsed))"
    by (simp add: demo_lineage_run)
  with lineage_edges_resolved[of demo_env demo_tables "Some ''svc.db.sch.t2''" "''svc.db.sch.t1''"
      demo_sink demo_tables demo_parsed]
  have "\<exists>name data_model up c' f t.
          (name, data_model) \<in> set (data_models demo_parsed)
          \<and> up \<in> set (dm_upstream data_model)
          \<and> get_by_name demo_env c' Table (JStr up) = Inr (Some f)
          \<and> get_by_name demo_env c' Table (fqn_json name) = Inr (Some t)
          \<and> ?r = AddLineageRequest \<lparr>ref_id = entity_id f, ref_type = ''table''\<rparr>
                                    \<lparr>ref_id = entity_id t, ref_type = ''table''\<rparr>"
    by blast
  with demo_lineage_run show ?thesis by blast
qed

section \<open>Test suites and definitions: one request per name\<close>

lemma suite_names_append: "suite_names (xs @ ys) = suite_names xs @ suite_names ys"
  by (induction xs rule: suite_names.induct) simp_all

lemma definition_names_append:
  "definition_names (xs @ ys) = definition_names xs @ definition_names ys"
  by (induction xs rule: definition_names.induct) simp_all

lemma suite_request_cases:
  assumes "suite_request env c dbt_test = Inr rs"
  shows "rs = []
         \<or> (\<exists>n d. rs = [CreateTestSuiteRequest n d] \<and> get_by_name env c TestSuite n = Inr None)"
proof -
  from assms obtain n d e where
    l: "get_by_name env c TestSuite n = Inr e"
    and r: "(if e = None then
               let r = CreateTestSuiteRequest n d
               in if valid_request env r then Inr [r] else Inl ValidationError
             else Inr []) = Inr rs"
    unfolding suite_request_def by (elim and_then_InrE) blast
  show ?thesis
  proof (cases "e = None")
    case True
    with r l show ?thesis by (auto simp: Let_def split: if_splits)
  next
    case False
    with r show ?thesis by simp
  qed
qed

lemma definition_request_cases:
  assumes "definition_request env c dbt_test = Inr rs"
  shows "rs = []
         \<or> (\<exists>n d t p. rs = [CreateTestDefinitionRequest n d t p]
                \<and> get_by_name env c TestDefinition n = Inr None)"
proof -
  from assms obtain n0 e where
    n0: "item dbt_test ''name'' = Inr n0"
    and l: "get_by_name env c TestDefinition n0 = Inr e"
    and r: "(if e = None then
         and_then (get_or dbt_test ''column_name'' JNull) (\<lambda>column_name.
         let entity_type = (if truthy column_name then COLUMN else TABLE) in
         and_then (item dbt_test ''name'') (\<lambda>name.
         and_then (item dbt_test ''description'') (\<lambda>description.
         and_then (create_test_case_parameter_definitions dbt_test) (\<lambda>params.
           let r = CreateTestDefinitionRequest name description entity_type params
           in if valid_request env r then Inr [r] else Inl ValidationError))))
       else Inr []) = Inr rs"
    unfolding definition_request_def by (elim and_then_InrE) blast
  show ?thesis
  proof (cases "e = None")
    case False
    with r show ?thesis by simp
  next
    case True
    with r have "and_then (get_or dbt_test ''column_name'' JNull) (\<lambda>column_name.
         and_then (item dbt_test ''name'') (\<lambda>name.
         and_then (item dbt_test ''description'') (\<lambda>description.
         and_then (create_test_case_parameter_definitions dbt_test) (\<lambda>params.
           if valid_request env (CreateTestDefinitionRequest name description
                                   (if truthy column_name then COLUMN else TABLE) params)
           then Inr [CreateTestDefinitionRequest name description
                       (if truthy column_name then COLUMN else TABLE) params]
           else Inl ValidationError)))) = Inr rs"
      by (simp add: Let_def)
    then obtain column_name name description params where
      n: "item dbt_test ''name'' = Inr name"
      and v: "(if valid_request env (CreateTestDefinitionRequest name description
                                   (if truthy column_name then COLUMN else TABLE) params)
           then Inr [CreateTestDefinitionRequest name description
                       (if truthy column_name then COLUMN else TABLE) params]
           else Inl ValidationError) = Inr rs"
      by (elim and_then_InrE) blast
    from n n0 have "name = n0" by simp
    with v l True show ?thesis by (auto simp: Let_def split: if_splits)
  qed
qed

lemma suite_definition_loop_once:
  assumes stored_suite:
      "\<And>c n d. get_by_name env (sink c (CreateTestSuiteRequest n d)) TestSuite n \<noteq> Inr None"
    and stored_definition:
      "\<And>c n d t p. get_by_name env (sink c (CreateTestDefinitionRequest n d t p)) TestDefinition n
                     \<noteq> Inr None"
    and kept: "\<And>c r k n. get_by_name env c k n \<noteq> Inr None
                     \<Longrightarrow> get_by_name env (sink c r) k n \<noteq> Inr None"
    and "distinct (suite_names out)" and "distinct (definition_names out)"
    and "\<forall>n \<in> set (suite_names out). get_by_name env c TestSuite n \<noteq> Inr None"
    and "\<forall>n \<in> set (definition_names out). get_by_name env c TestDefinition n \<noteq> Inr None"
  shows "distinct (suite_names (fst (suite_definition_loop env sink out c tests)))
         \<and> distinct (definition_names (fst (suite_definition_loop env sink out c tests)))"
  using assms(4-7)
proof (induction tests arbitrary: out c)
  case Nil
  then show ?case by simp
next
  case (Cons dbt_test rest)
  show ?case
  proof (cases "suite_request env c dbt_test")
    case (Inl err)
    with Cons.prems show ?thesis by simp
  next
    case (Inr rs)
    let ?c1 = "foldl sink c rs"
    let ?out1 = "out @ rs"
    have s1: "distinct (suite_names ?out1)"
      and d1: "distinct (definition_names ?out1)"
      and ps1: "\<forall>n \<in> set (suite_names ?out1). get_by_name env ?c1 TestSuite n \<noteq> Inr None"
      and pd1: "\<forall>n \<in> set (definition_names ?out1). get_by_name env ?c1 TestDefinition n \<noteq> Inr None"
    proof -
      from suite_request_cases[OF Inr] consider "rs = []"
        | n d where "rs = [CreateTestSuiteRequest n d]" "get_by_name env c TestSuite n = Inr None"
        by blast
      then have "distinct (suite_names ?out1) \<and> distinct (definition_names ?out1)
        \<and> (\<forall>n \<in> set (suite_names ?out1). get_by_name env ?c1 TestSuite n \<noteq> Inr None)
        \<and> (\<forall>n \<in> set (definition_names ?out1). get_by_name env ?c1 TestDefinition n \<noteq> Inr None)"
      proof cases
        case 1
        with Cons.prems show ?thesis by simp
      next
        case 2
        from 2(2) Cons.prems(3) have "n \<notin> set (suite_names out)" by auto
        with 2(1) Cons.prems show ?thesis
          by (auto simp: suite_names_append definition_names_append stored_suite kept)
      qed
      then show "distinct (suite_names ?out1)" "distinct (definition_names ?out1)"
        "\<forall>n \<in> set (suite_names ?out1). get_by_name env ?c1 TestSuite n \<noteq> Inr None"
        "\<forall>n \<in> set (definition_names ?out1). get_by_name env ?c1 TestDefinition n \<noteq> Inr None"
        by blast+
    qed
    show ?thesis
    proof (cases "definition_request env ?c1 dbt_test")
      case (Inl err)
      with Inr s1 d1 show ?thesis by simp
    next
      case ds: (Inr ds)
      let ?c2 = "foldl sink ?c1 ds"
      let ?out2 = "?out1 @ ds"
      from definition_request_cases[OF ds] consider "ds = []"
        | n d t p where "ds = [CreateTestDefinitionRequest n d t p]"
            "get_by_name env ?c1 TestDefinition n = Inr None"
        by blast
      then have inv: "distinct (suite_names ?out2) \<and> distinct (definition_names ?out2)
        \<and> (\<forall>n \<in> set (suite_names ?out2). get_by_name env ?c2 TestSuite n \<noteq> Inr None)
        \<and> (\<forall>n \<in> set (definition_names ?out2). get_by_name env ?c2 TestDefinition n \<noteq> Inr None)"
      proof cases
        case 1
        with s1 d1 ps1 pd1 show ?thesis by simp
      next
        case 2
        from 2(2) pd1 have "n \<notin> set (definition_names ?out1)" by auto
        with 2(1) s1 d1 ps1 pd1 show ?thesis
          by (auto simp: suite_names_append definition_names_append stored_definition kept)
      qed
      have "suite_definition_loop env sink out c (dbt_test # rest)
              = suite_definition_loop env sink ?out2 ?c2 rest"
        using Inr ds by simp
      moreover have "distinct (suite_names (fst (suite_definition_loop env sink ?out2 ?c2 rest)))
         \<and> distinct (definition_names (fst (suite_definition_loop env sink ?out2 ?c2 rest)))"
        using inv by (intro Cons.IH) blast+
      ultimately show ?thesis by simp
    qed
  qed
qed

text \<open>
  C4, as amended. When the consumer stores each request before the generator resumes (a
  lookup of a name just created no longer returns none) and the server keeps what it
  holds, a run of \<open>create_dbt_tests_suite_definition\<close> yields at most one create-suite
  request per suite name and at most one create-definition request per definition name.
\<close>

theorem suite_definition_once:
  assumes "\<And>c n d. get_by_name env (sink c (CreateTestSuiteRequest n d)) TestSuite n \<noteq> Inr None"
    and "\<And>c n d t p. get_by_name env (sink c (CreateTestDefinitionRequest n d t p)) TestDefinition n
                     \<noteq> Inr None"
    and "\<And>c r k n. get_by_name env c k n \<noteq> Inr None
                     \<Longrightarrow> get_by_name env (sink c r) k n \<noteq> Inr None"
  shows "distinct (suite_names (fst (create_dbt_tests_suite_definition env sink c self)))
         \<and> distinct (definition_names (fst (create_dbt_tests_suite_definition env sink c self)))"
proof (cases "dbtConfigSource self \<and> truthy (dbt_manifest self) \<and> truthy (dbt_catalog self)")
  case True
  have "distinct (suite_names (fst (suite_definition_loop env sink [] c (map snd (dbt_tests self)))))
      \<and> distinct (definition_names
                    (fst (suite_definition_loop env sink [] c (map snd (dbt_tests self)))))"
    by (rule suite_definition_loop_once[OF assms]) simp_all
  with True show ?thesis by (simp add: create_dbt_tests_suite_definition_def)
next
  case False
  then show ?thesis by (auto simp: create_dbt_tests_suite_definition_def)
qed

lemma demo_gate:
  "dbtConfigSource demo_merged \<and> truthy (dbt_manifest demo_merged) \<and> truthy (dbt_catalog demo_merged)"
  by (simp add: demo_merged_def demo_self_def demo_manifest_def demo_catalog_def)

lemma suite_request_node_test:
  "suite_request demo_env c node_test
     = Inr (if (TestSuite, JStr ''DBT_TEST_SUITE'') \<in> set c then []
            else [CreateTestSuiteRequest (JStr ''DBT_TEST_SUITE'') (JStr [])])"
  by (simp add: suite_request_def node_test_def item_def get_or_def demo_env_def)

lemma suite_request_node_test_unique:
  "suite_request demo_env c node_test_unique
     = Inr (if (TestSuite, JStr ''DBT_TEST_SUITE'') \<in> set c then []
            else [CreateTestSuiteRequest (JStr ''DBT_TEST_SUITE'') (JStr [])])"
  by (simp add: suite_request_def node_test_unique_def item_def get_or_def demo_env_def)

lemma suite_request_node_test_singular:
  "suite_request demo_env c node_test_singular
     = Inr (if (TestSuite, JStr ''DBT_TEST_SUITE'') \<in> set c then []
            else [CreateTestSuiteRequest (JStr ''DBT_TEST_SUITE'') (JStr [])])"
  by (simp add: suite_request_def node_test_singular_def item_def get_or_def demo_env_def)

lemma definition_request_node_test:
  "definition_request demo_env c node_test
     = Inr (if (TestDefinition, JStr ''not_null_t2_id'') \<in> set c then []
            else [CreateTestDefinitionRequest (JStr ''not_null_t2_id'') (JStr []) COLUMN
                    (JList [JDict [(''name'', JStr ''not_null''),
                                   (''displayName'', JStr ''not_null''),
                                   (''required'', JBool False)]])])"
  by (simp add: definition_request_def create_test_case_parameter_definitions_def
      node_test_def item_def get_or_def demo_env_def)

lemma definition_request_node_test_unique:
  "definition_request demo_env c node_test_unique
     = Inr (if (TestDefinition, JStr ''unique_t2_id'') \<in> set c then []
            else [CreateTestDefinitionRequest (JStr ''unique_t2_id'') (JStr []) COLUMN
                    (JList [JDict [(''name'', JStr ''unique''),
                                   (''displayName'', JStr ''unique''),
                                   (''required'', JBool False)]])])"
  by (simp add: definition_request_def create_test_case_parameter_definitions_def
      node_test_unique_def item_def get_or_def demo_env_def)

lemma definition_request_node_test_singular:
  "definition_request demo_env c node_test_singular
     = (if (TestDefinition, JStr ''assert_total_positive'') \<in> set c then Inr []
        else Inl KeyError)"
  by (simp add: definition_request_def create_test_case_parameter_definitions_def
      node_test_singular_def item_def get_or_def demo_env_def)

lemma two_tests_stored:
  "fst (create_dbt_tests_suite_definition demo_env demo_sink [] two_tests)
     = [CreateTestSuiteRequest (JStr ''DBT_TEST_SUITE'') (JStr []),
        CreateTestDefinitionRequest (JStr ''not_null_t2_id'') (JStr []) COLUMN
          (JList [JDict [(''name'', JStr ''not_null''), (''displayName'', JStr ''not_null''),
                         (''required'', JBool False)]]),
        CreateTestDefinitionRequest (JStr ''unique_t2_id'') (JStr []) COLUMN
          (JList [JDict [(''name'', JStr ''unique''), (''displayName'', JStr ''unique''),
                         (''required'', JBool False)]])]"
proof -
  have g: "dbtConfigSource two_tests \<and> truthy (dbt_manifest two_tests) \<and> truthy (dbt_catalog two_tests)"
    using demo_gate by (simp add: two_tests_def)
  have t: "map snd (dbt_tests two_tests) = [node_test, node_test_unique]"
    by (simp add: two_tests_def)
  show ?thesis
    unfolding create_dbt_tests_suite_definition_def
    by (simp add: g t suite_request_node_test suite_request_node_test_unique
        definition_request_node_test definition_request_node_test_unique demo_sink_def)
qed

text \<open>
  Two tests of the default suite, and a consumer that stores each request at once: the
  suite is created once.
\<close>

theorem suite_definition_once_witness:
  "suite_names (fst (create_dbt_tests_suite_definition demo_env demo_sink [] two_tests))
     = [JStr ''DBT_TEST_SUITE'']
   \<and> distinct (suite_names (fst (create_dbt_tests_suite_definition demo_env demo_sink [] two_tests)))
   \<and> distinct (definition_names
                 (fst (create_dbt_tests_suite_definition demo_env demo_sink [] two_tests)))"
proof -
  have s: "\<And>c n d. get_by_name demo_env (demo_sink c (CreateTestSuiteRequest n d)) TestSuite n
                    \<noteq> Inr None"
    by (simp add: demo_env_def demo_sink_def)
  have d: "\<And>c n d t p. get_by_name demo_env (demo_sink c (CreateTestDefinitionRequest n d t p))
                         TestDefinition n \<noteq> Inr None"
    by (simp add: demo_env_def demo_sink_def)
  have k: "\<And>c r k n. get_by_name demo_env c k n \<noteq> Inr None
                     \<Longrightarrow> get_by_name demo_env (demo_sink c r) k n \<noteq> Inr None"
  proof -
    fix c :: server and r k n
    assume "get_by_name demo_env c k n \<noteq> Inr None"
    then show "get_by_name demo_env (demo_sink c r) k n \<noteq> Inr None"
      by (cases r) (simp_all add: demo_env_def demo_sink_def split: if_splits)
  qed
  have "suite_names (fst (create_dbt_tests_suite_definition demo_env demo_sink [] two_tests))
     = [JStr ''DBT_TEST_SUITE'']"
    by (simp add: two_tests_stored)
  with suite_definition_once[of demo_env demo_sink "[]" two_tests, OF s d k]
  show ?thesis by simp
qed

text \<open>
  C4 as stated fails: the same two tests, and a consumer that collects the requests
  before it stores any: the suite is requested twice.
\<close>

theorem suite_requested_twice:
  "suite_names (fst (create_dbt_tests_suite_definition demo_env collect_sink [] two_tests))
     = [JStr ''DBT_TEST_SUITE'', JStr ''DBT_TEST_SUITE'']"
proof -
  have g: "dbtConfigSource two_tests \<and> truthy (dbt_manifest two_tests) \<and> truthy (dbt_catalog two_tests)"
    using demo_gate by (simp add: two_tests_def)
  have t: "map snd (dbt_tests two_tests) = [node_test, node_test_unique]"
    by (simp add: two_tests_def)
  show ?thesis
    unfolding create_dbt_tests_suite_definition_def
    by (simp add: g t suite_request_node_test suite_request_node_test_unique
        definition_request_node_test definition_request_node_test_unique collect_sink_def)
qed

section \<open>Data models: what the loop stores\<close>

lemma upstream_step_cong:
  "manifest_entities s = manifest_entities s' \<Longrightarrow> upstream_step env c s = upstream_step env c s'"
  by (intro ext) (simp add: upstream_step_def parent_fqn_of_def)

lemma parse_data_model_upstream_cong:
  "manifest_entities s = manifest_entities s'
     \<Longrightarrow> parse_data_model_upstream env c s mnode = parse_data_model_upstream env c s' mnode"
proof -
  assume "manifest_entities s = manifest_entities s'"
  then have step: "upstream_step env c s = upstream_step env c s'"
    by (rule upstream_step_cong)
  show ?thesis
    unfolding parse_data_model_upstream_def step by (rule refl)
qed

lemma resolve_node_cong:
  assumes "manifest_entities s = manifest_entities s'"
    and "catalog_entities s = catalog_entities s'"
  shows "resolve_node env c s key mnode = resolve_node env c s' key mnode"
proof -
  have up: "parse_data_model_upstream env c s mnode = parse_data_model_upstream env c s' mnode"
    using assms(1) by (rule parse_data_model_upstream_cong)
  show ?thesis
    unfolding resolve_node_def catalog_node_def assemble_model_def up assms(2) by (rule refl)
qed

lemma parse_node_frame:
  "manifest_entities (parse_node env c s e) = manifest_entities s
   \<and> catalog_entities (parse_node env c s e) = catalog_entities s"
  by (simp add: parse_node_def split: sum.splits node_outcome.splits)

lemma parse_node_resolve:
  "resolve_node env c (parse_node env c s e) key mnode = resolve_node env c s key mnode"
  by (rule resolve_node_cong) (simp_all add: parse_node_frame)

text \<open>A test node is never resolved to a model; a resolved node is no test.\<close>

lemma resolved_not_test:
  assumes "resolve_node env c s key mnode = Inr (Resolved f dm)"
  shows "\<exists>rt. item mnode ''resource_type'' = Inr rt \<and> rt \<noteq> JStr ''test''"
proof -
  from assms obtain name columns rt where
    rt: "item mnode ''resource_type'' = Inr rt"
    and r: "(if rt = JStr ''test'' then Inr RoutedTest
             else assemble_model env c s mnode (catalog_node s key) columns) = Inr (Resolved f dm)"
    unfolding resolve_node_def Let_def by (elim and_then_InrE) blast
  from r have "rt \<noteq> JStr ''test''" by (auto split: if_splits)
  with rt show ?thesis by blast
qed

lemma routed_test_iff:
  assumes "item mnode ''resource_type'' = Inr (JStr ''test'')"
  shows "resolve_node env c s key mnode = Inr RoutedTest
           \<longleftrightarrow> (\<exists>name columns. alias_or_name mnode = Inr name
                  \<and> node_columns env name mnode (catalog_node s key) = Inr columns)"
proof
  assume "resolve_node env c s key mnode = Inr RoutedTest"
  then show "\<exists>name columns. alias_or_name mnode = Inr name
                  \<and> node_columns env name mnode (catalog_node s key) = Inr columns"
    unfolding resolve_node_def Let_def by (elim and_then_InrE) blast
next
  assume "\<exists>name columns. alias_or_name mnode = Inr name
                  \<and> node_columns env name mnode (catalog_node s key) = Inr columns"
  with assms show "resolve_node env c s key mnode = Inr RoutedTest"
    by (auto simp: resolve_node_def)
qed

text \<open>The name a model is stored under is the one built from the node.\<close>

lemma resolved_name:
  assumes "resolve_node env c s key mnode = Inr (Resolved f dm)"
  shows "\<exists>database schema model_name.
           alias_or_name mnode = Inr model_name
           \<and> item mnode ''database'' = Inr database
           \<and> item mnode ''schema'' = Inr schema
           \<and> fqn_build_data_model env c (serviceName env)
               (or_default database) (or_default schema) model_name = Inr f"
proof -
  from assms obtain columns rt where
    r: "(if rt = JStr ''test'' then Inr RoutedTest
         else assemble_model env c s mnode (catalog_node s key) columns) = Inr (Resolved f dm)"
    unfolding resolve_node_def Let_def by (elim and_then_InrE) blast
  then have "assemble_model env c s mnode (catalog_node s key) columns = Inr (Resolved f dm)"
    by (auto split: if_splits)
  then obtain model_name database schema model where
    n: "alias_or_name mnode = Inr model_name"
    and d: "item mnode ''database'' = Inr database"
    and sc: "item mnode ''schema'' = Inr schema"
    and b: "(if \<not> valid_DataModel env model then Inl ValidationError
             else and_then (fqn_build_data_model env c (serviceName env)
                        (or_default database) (or_default schema) model_name) (\<lambda>model_fqn.
              Inr (Resolved model_fqn model))) = Inr (Resolved f dm)"
    unfolding assemble_model_def Let_def by (elim and_then_InrE) blast
  from b have "fqn_build_data_model env c (serviceName env)
                 (or_default database) (or_default schema) model_name = Inr f"
    by (auto simp: and_then_eq_Inr split: if_splits)
  with n d sc show ?thesis by blast
qed

text \<open>A node whose catalog node is missing or empty is never resolved to a model.\<close>

lemma falsy_item: "\<not> truthy x \<Longrightarrow> \<exists>exc. item x k = Inl exc"
  by (cases x) (simp_all add: item_def)

lemma no_catalog_node_no_model:
  assumes "\<not> truthy (catalog_node s key)"
  shows "resolve_node env c s key mnode \<noteq> Inr (Resolved f dm)"
proof
  assume "resolve_node env c s key mnode = Inr (Resolved f dm)"
  then obtain columns rt where
    r: "(if rt = JStr ''test'' then Inr RoutedTest
         else assemble_model env c s mnode (catalog_node s key) columns) = Inr (Resolved f dm)"
    unfolding resolve_node_def Let_def by (elim and_then_InrE) blast
  then have "assemble_model env c s mnode (catalog_node s key) columns = Inr (Resolved f dm)"
    by (auto split: if_splits)
  then obtain metadata where "item (catalog_node s key) ''metadata'' = Inr metadata"
    unfolding assemble_model_def by (elim and_then_InrE) blast
  with falsy_item[OF assms, of "''metadata''"] show False by auto
qed

subsection \<open>The loop\<close>

lemma loop_frame:
  "manifest_entities (foldl (parse_node env c) s es) = manifest_entities s
   \<and> catalog_entities (foldl (parse_node env c) s es) = catalog_entities s"
  by (induction es arbitrary: s) (simp_all add: parse_node_frame)

lemma update_other: "k' \<noteq> k \<Longrightarrow> map_of (AList.update k' v al) k = map_of al k"
  by (simp add: update_conv')

lemma update_same: "map_of (AList.update k v al) k = Some v"
  by (simp add: update_conv')

lemma set_update_subset: "set (AList.update k v al) \<subseteq> insert (k, v) (set al)"
  by (induction al) auto

lemma parse_node_tests_other:
  "fst e \<noteq> k \<Longrightarrow> map_of (dbt_tests (parse_node env c s e)) k = map_of (dbt_tests s) k"
  by (simp add: parse_node_def update_other split: sum.splits node_outcome.splits)

lemma loop_tests_other:
  "k \<notin> fst ` set es
     \<Longrightarrow> map_of (dbt_tests (foldl (parse_node env c) s es)) k = map_of (dbt_tests s) k"
proof (induction es arbitrary: s)
  case Nil
  show ?case by simp
next
  case (Cons e es)
  then have "fst e \<noteq> k" and "k \<notin> fst ` set es" by auto
  then show ?case
    using Cons.IH[of "parse_node env c s e"] by (simp add: parse_node_tests_other)
qed

lemma loop_routes_test:
  assumes "distinct (map fst es)" and "(k, m) \<in> set es"
    and "resolve_node env c s k m = Inr RoutedTest"
  shows "map_of (dbt_tests (foldl (parse_node env c) s es)) k = Some m"
  using assms
proof (induction es arbitrary: s)
  case Nil
  then show ?case by simp
next
  case (Cons e es)
  show ?case
  proof (cases "e = (k, m)")
    case True
    with Cons.prems(1) have "k \<notin> fst ` set es" by auto
    then have "map_of (dbt_tests (foldl (parse_node env c) (parse_node env c s e) es)) k
                 = map_of (dbt_tests (parse_node env c s e)) k"
      by (rule loop_tests_other)
    also have "\<dots> = Some m"
      using True Cons.prems(3) by (simp add: parse_node_def update_same)
    finally show ?thesis by simp
  next
    case False
    with Cons.prems have "distinct (map fst es)" "(k, m) \<in> set es"
      "resolve_node env c (parse_node env c s e) k m = Inr RoutedTest"
      by (simp_all add: parse_node_resolve)
    from Cons.IH[OF this] show ?thesis by simp
  qed
qed

lemma parse_node_models_keys:
  "fst ` set (data_models s) \<subseteq> fst ` set (data_models (parse_node env c s e))"
  by (auto simp: parse_node_def dom_update split: sum.splits node_outcome.splits)

lemma loop_models_keys:
  "fst ` set (data_models s) \<subseteq> fst ` set (data_models (foldl (parse_node env c) s es))"
proof (induction es arbitrary: s)
  case Nil
  show ?case by simp
next
  case (Cons e es)
  show ?case
    using parse_node_models_keys[of s env c e] Cons.IH[of "parse_node env c s e"] by auto
qed

lemma loop_stores_name:
  assumes "(k, m) \<in> set es" and "resolve_node env c s k m = Inr (Resolved f dm)"
  shows "f \<in> fst ` set (data_models (foldl (parse_node env c) s es))"
  using assms
proof (induction es arbitrary: s)
  case Nil
  then show ?case by simp
next
  case (Cons e es)
  show ?case
  proof (cases "e = (k, m)")
    case True
    with Cons.prems(2) have "f \<in> fst ` set (data_models (parse_node env c s e))"
      by (simp add: parse_node_def dom_update)
    then show ?thesis
      using loop_models_keys[of "parse_node env c s e" env c es] by auto
  next
    case False
    with Cons.prems have "(k, m) \<in> set es"
      "resolve_node env c (parse_node env c s e) k m = Inr (Resolved f dm)"
      by (simp_all add: parse_node_resolve)
    from Cons.IH[OF this] show ?thesis by simp
  qed
qed

lemma loop_models_distinct:
  "distinct (map fst (data_models s))
     \<Longrightarrow> distinct (map fst (data_models (foldl (parse_node env c) s es)))"
proof (induction es arbitrary: s)
  case Nil
  then show ?case by simp
next
  case (Cons e es)
  from Cons.prems have "distinct (map fst (data_models (parse_node env c s e)))"
    by (simp add: parse_node_def distinct_update split: sum.splits node_outcome.splits)
  from Cons.IH[OF this] show ?case by simp
qed

lemma loop_keeps_model:
  assumes "\<forall>e \<in> set es. \<forall>dm'. resolve_node env c s (fst e) (snd e) = Inr (Resolved f dm')
                                   \<longrightarrow> dm' = dm"
    and "map_of (data_models s) f = Some dm"
  shows "map_of (data_models (foldl (parse_node env c) s es)) f = Some dm"
  using assms
proof (induction es arbitrary: s)
  case Nil
  then show ?case by simp
next
  case (Cons e es)
  let ?s1 = "parse_node env c s e"
  have "map_of (data_models ?s1) f = Some dm"
  proof (cases "resolve_node env c s (fst e) (snd e)")
    case (Inl exc)
    with Cons.prems(2) show ?thesis by (simp add: parse_node_def)
  next
    case (Inr outcome)
    show ?thesis
    proof (cases outcome)
      case RoutedTest
      with Inr Cons.prems(2) show ?thesis by (simp add: parse_node_def)
    next
      case (Resolved f' dm')
      show ?thesis
      proof (cases "f' = f")
        case True
        with Resolved Inr Cons.prems(1) have "dm' = dm" by simp
        with True Resolved Inr show ?thesis by (simp add: parse_node_def update_same)
      next
        case False
        with Resolved Inr Cons.prems(2) show ?thesis by (simp add: parse_node_def update_other)
      qed
    qed
  qed
  moreover have "\<forall>e \<in> set es. \<forall>dm'. resolve_node env c ?s1 (fst e) (snd e) = Inr (Resolved f dm')
                                   \<longrightarrow> dm' = dm"
    using Cons.prems(1) by (simp add: parse_node_resolve)
  ultimately show ?case
    using Cons.IH[of ?s1] by simp
qed

lemma loop_stores_model:
  assumes "(k, m) \<in> set es" and "resolve_node env c s k m = Inr (Resolved f dm)"
    and "\<forall>e \<in> set es. \<forall>dm'. resolve_node env c s (fst e) (snd e) = Inr (Resolved f dm')
                                   \<longrightarrow> dm' = dm"
  shows "map_of (data_models (foldl (parse_node env c) s es)) f = Some dm"
  using assms
proof (induction es arbitrary: s)
  case Nil
  then show ?case by simp
next
  case (Cons e es)
  let ?s1 = "parse_node env c s e"
  have rest: "\<forall>e \<in> set es. \<forall>dm'. resolve_node env c ?s1 (fst e) (snd e) = Inr (Resolved f dm')
                                   \<longrightarrow> dm' = dm"
    using Cons.prems(3) by (simp add: parse_node_resolve)
  show ?case
  proof (cases "e = (k, m)")
    case True
    with Cons.prems(2) have "map_of (data_models ?s1) f = Some dm"
      by (simp add: parse_node_def update_same)
    from loop_keeps_model[OF rest this] show ?thesis by simp
  next
    case False
    with Cons.prems(1) have "(k, m) \<in> set es" by simp
    moreover from Cons.prems(2) have "resolve_node env c ?s1 k m = Inr (Resolved f dm)"
      by (simp add: parse_node_resolve)
    ultimately have "map_of (data_models (foldl (parse_node env c) ?s1 es)) f = Some dm"
      using rest by (rule Cons.IH)
    then show ?thesis by simp
  qed
qed

lemma loop_models_origin:
  assumes "(f, dm) \<in> set (data_models (foldl (parse_node env c) s es))"
  shows "(f, dm) \<in> set (data_models s)
         \<or> (\<exists>k m. (k, m) \<in> set es \<and> resolve_node env c s k m = Inr (Resolved f dm))"
  using assms
proof (induction es arbitrary: s)
  case Nil
  then show ?case by simp
next
  case (Cons e es)
  let ?s1 = "parse_node env c s e"
  from Cons.IH[OF Cons.prems[simplified]]
  have "(f, dm) \<in> set (data_models ?s1)
        \<or> (\<exists>k m. (k, m) \<in> set es \<and> resolve_node env c s k m = Inr (Resolved f dm))"
    by (simp add: parse_node_resolve)
  then show ?case
  proof
    assume a: "(f, dm) \<in> set (data_models ?s1)"
    show ?thesis
    proof (cases "resolve_node env c s (fst e) (snd e)")
      case (Inl exc)
      with a show ?thesis by (simp add: parse_node_def)
    next
      case (Inr outcome)
      show ?thesis
      proof (cases outcome)
        case RoutedTest
        with Inr a show ?thesis by (simp add: parse_node_def)
      next
        case (Resolved f' dm')
        with Inr a have "(f, dm) \<in> set (AList.update f' dm' (data_models s))"
          by (simp add: parse_node_def)
        with set_update_subset[of f' dm' "data_models s"]
        have "(f, dm) = (f', dm') \<or> (f, dm) \<in> set (data_models s)" by auto
        then show ?thesis
        proof
          assume "(f, dm) = (f', dm')"
          with Resolved Inr have "(fst e, snd e) \<in> set (e # es)
              \<and> resolve_node env c s (fst e) (snd e) = Inr (Resolved f dm)"
            by simp
          then show ?thesis by blast
        qed simp
      qed
    qed
  next
    assume "\<exists>k m. (k, m) \<in> set es \<and> resolve_node env c s k m = Inr (Resolved f dm)"
    then show ?thesis by auto
  qed
qed

subsection \<open>The merged maps\<close>

lemma dict_store_keys: "distinct (map fst d) \<Longrightarrow> distinct (map fst (dict_store d p))"
  by (simp add: dict_store_def distinct_update)

lemma foldl_dict_store_distinct:
  "distinct (map fst d) \<Longrightarrow> distinct (map fst (foldl dict_store d ps))"
  by (induction ps arbitrary: d) (simp_all add: dict_store_keys)

lemma merged_entities_distinct:
  assumes "merged_entities doc = Inr es"
  shows "distinct (map fst es)"
proof -
  from assms obtain a b where "es = merge_dicts a b"
    unfolding merged_entities_def by (elim and_then_InrE) auto
  then show ?thesis
    by (simp add: merge_dicts_def foldl_dict_store_distinct)
qed

lemma distinct_count_one: "distinct xs \<Longrightarrow> x \<in> set xs \<Longrightarrow> count_list xs x = 1"
  by (induction xs) auto

lemma parse_data_model_run:
  assumes "dbtConfigSource self" and "truthy (dbt_manifest self)" and "truthy (dbt_catalog self)"
    and "merged_entities (dbt_manifest self) = Inr entities"
    and "merged_entities (dbt_catalog self) = Inr centities"
  shows "parse_data_model env c self
           = (None, foldl (parse_node env c)
                      (self\<lparr>manifest_entities := entities, catalog_entities := centities\<rparr>)
                      entities)"
  using assms by (simp add: parse_data_model_def Let_def)

lemma assemble_model_outcome:
  assumes "assemble_model env c s mnode cnode columns = Inr outcome"
  shows "\<exists>f dm. outcome = Resolved f dm"
proof -
  from assms obtain model database schema model_name where
    "(if \<not> valid_DataModel env model then Inl ValidationError
      else and_then (fqn_build_data_model env c (serviceName env)
                        (or_default database) (or_default schema) model_name) (\<lambda>model_fqn.
              Inr (Resolved model_fqn model))) = Inr outcome"
    unfolding assemble_model_def Let_def by (elim and_then_InrE) blast
  then show ?thesis
    by (auto simp: and_then_eq_Inr split: if_splits)
qed

lemma resolve_node_outcome:
  assumes "resolve_node env c s key mnode = Inr outcome"
  shows "\<exists>rt. item mnode ''resource_type'' = Inr rt
              \<and> (if rt = JStr ''test'' then outcome = RoutedTest
                  else \<exists>f dm. outcome = Resolved f dm)"
proof -
  from assms obtain columns rt where
    rt: "item mnode ''resource_type'' = Inr rt"
    and r: "(if rt = JStr ''test'' then Inr RoutedTest
             else assemble_model env c s mnode (catalog_node s key) columns) = Inr outcome"
    unfolding resolve_node_def Let_def by (elim and_then_InrE) blast
  show ?thesis
  proof (cases "rt = JStr ''test''")
    case True
    with r rt show ?thesis by auto
  next
    case False
    with r have "assemble_model env c s mnode (catalog_node s key) columns = Inr outcome"
      by simp
    from assemble_model_outcome[OF this] rt False show ?thesis by auto
  qed
qed

text \<open>
  C1, as amended. Let \<open>merged\<close> be \<open>self\<close> with the two merged maps and \<open>final\<close> be
  \<open>self\<close> after \<open>_parse_data_model\<close>. For an entry of the merged manifest-entity map whose
  \<open>try\<close> raises nothing: when its \<open>resource_type\<close> is \<open>test\<close> the entry is in the
  test-node map under its key and no model is made; otherwise its model is made under the
  name that \<open>fqn.build\<close> returns for the service, its database or \<open>default\<close>, its schema
  or \<open>default\<close>, and its alias or name; that name is a key of the DataModel map exactly
  once, and it holds the node's model when no other entry resolves to the same name. The
  \<open>try\<close> of a test node raises nothing exactly when its name and its columns are
  resolved. Every entry of the DataModel map was there before or is the model of a node
  that is no test.
\<close>

theorem data_model_map:
  assumes "dbtConfigSource self" and "truthy (dbt_manifest self)" and "truthy (dbt_catalog self)"
    and "merged_entities (dbt_manifest self) = Inr entities"
    and "merged_entities (dbt_catalog self) = Inr centities"
    and "distinct (map fst (data_models self))"
    and "(key, mnode) \<in> set entities"
    and "merged = self\<lparr>manifest_entities := entities, catalog_entities := centities\<rparr>"
    and "final = snd (parse_data_model env c self)"
  shows "(\<forall>outcome. resolve_node env c merged key mnode = Inr outcome \<longrightarrow>
           (if item mnode ''resource_type'' = Inr (JStr ''test'')
            then outcome = RoutedTest \<and> map_of (dbt_tests final) key = Some mnode
            else \<exists>f dm database schema model_name.
                   outcome = Resolved f dm
                   \<and> alias_or_name mnode = Inr model_name
                   \<and> item mnode ''database'' = Inr database
                   \<and> item mnode ''schema'' = Inr schema
                   \<and> fqn_build_data_model env c (serviceName env)
                       (or_default database) (or_default schema) model_name = Inr f
                   \<and> count_list (map fst (data_models final)) f = 1
                   \<and> ((\<forall>k m dm'. (k, m) \<in> set entities \<and> k \<noteq> key \<longrightarrow>
                          resolve_node env c merged k m \<noteq> Inr (Resolved f dm'))
                        \<longrightarrow> map_of (data_models final) f = Some dm)))
       \<and> (item mnode ''resource_type'' = Inr (JStr ''test'') \<longrightarrow>
             (resolve_node env c merged key mnode = Inr RoutedTest
                \<longleftrightarrow> (\<exists>name columns. alias_or_name mnode = Inr name
                       \<and> node_columns env name mnode (catalog_node merged key) = Inr columns)))
       \<and> (\<forall>f dm. (f, dm) \<in> set (data_models final) \<longrightarrow>
             (f, dm) \<in> set (data_models self)
             \<or> (\<exists>k m rt. (k, m) \<in> set entities
                   \<and> item m ''resource_type'' = Inr rt \<and> rt \<noteq> JStr ''test''
                   \<and> resolve_node env c merged k m = Inr (Resolved f dm)))"
proof -
  have final: "final = foldl (parse_node env c) merged entities"
    using parse_data_model_run[OF assms(1-5), of env c] assms(8,9) by simp
  have keys: "distinct (map fst entities)"
    using assms(4) by (rule merged_entities_distinct)
  have init: "data_models merged = data_models self"
    by (simp add: assms(8))
  have first: "\<forall>outcome. resolve_node env c merged key mnode = Inr outcome \<longrightarrow>
           (if item mnode ''resource_type'' = Inr (JStr ''test'')
            then outcome = RoutedTest \<and> map_of (dbt_tests final) key = Some mnode
            else \<exists>f dm database schema model_name.
                   outcome = Resolved f dm
                   \<and> alias_or_name mnode = Inr model_name
                   \<and> item mnode ''database'' = Inr database
                   \<and> item mnode ''schema'' = Inr schema
                   \<and> fqn_build_data_model env c (serviceName env)
                       (or_default database) (or_default schema) model_name = Inr f
                   \<and> count_list (map fst (data_models final)) f = 1
                   \<and> ((\<forall>k m dm'. (k, m) \<in> set entities \<and> k \<noteq> key \<longrightarrow>
                          resolve_node env c merged k m \<noteq> Inr (Resolved f dm'))
                        \<longrightarrow> map_of (data_models final) f = Some dm))"
  proof (intro allI impI)
    fix outcome
    assume r: "resolve_node env c merged key mnode = Inr outcome"
    from resolve_node_outcome[OF r] obtain rt where
      rt: "item mnode ''resource_type'' = Inr rt"
      and o: "if rt = JStr ''test'' then outcome = RoutedTest else \<exists>f dm. outcome = Resolved f dm"
      by blast
    show "if item mnode ''resource_type'' = Inr (JStr ''test'')
            then outcome = RoutedTest \<and> map_of (dbt_tests final) key = Some mnode
            else \<exists>f dm database schema model_name.
                   outcome = Resolved f dm
                   \<and> alias_or_name mnode = Inr model_name
                   \<and> item mnode ''database'' = Inr database
                   \<and> item mnode ''schema'' = Inr schema
                   \<and> fqn_build_data_model env c (serviceName env)
                       (or_default database) (or_default schema) model_name = Inr f
                   \<and> count_list (map fst (data_models final)) f = 1
                   \<and> ((\<forall>k m dm'. (k, m) \<in> set entities \<and> k \<noteq> key \<longrightarrow>
                          resolve_node env c merged k m \<noteq> Inr (Resolved f dm'))
                        \<longrightarrow> map_of (data_models final) f = Some dm)"
    proof (cases "rt = JStr ''test''")
      case True
      with o r have "resolve_node env c merged key mnode = Inr RoutedTest" by simp
      from loop_routes_test[OF keys assms(7) this]
      have "map_of (dbt_tests final) key = Some mnode" by (simp add: final)
      with True o rt show ?thesis by simp
    next
      case False
      with o obtain f dm where out: "outcome = Resolved f dm" by auto
      with r have res: "resolve_node env c merged key mnode = Inr (Resolved f dm)" by simp
      from resolved_name[OF res] obtain database schema model_name where
        n: "alias_or_name mnode = Inr model_name" "item mnode ''database'' = Inr database"
          "item mnode ''schema'' = Inr schema"
          "fqn_build_data_model env c (serviceName env)
             (or_default database) (or_default schema) model_name = Inr f"
        by blast
      have "f \<in> set (map fst (data_models final))"
        using loop_stores_name[OF assms(7) res] by (simp add: final)
      moreover have "distinct (map fst (data_models final))"
        unfolding final using assms(6) init by (intro loop_models_distinct) simp
      ultimately have cnt: "count_list (map fst (data_models final)) f = 1"
        by (intro distinct_count_one)
      have val: "map_of (data_models final) f = Some dm"
        if u: "\<forall>k m dm'. (k, m) \<in> set entities \<and> k \<noteq> key \<longrightarrow>
                 resolve_node env c merged k m \<noteq> Inr (Resolved f dm')"
      proof -
        have "\<forall>e \<in> set entities. \<forall>dm'.
                resolve_node env c merged (fst e) (snd e) = Inr (Resolved f dm') \<longrightarrow> dm' = dm"
        proof (intro ballI allI impI)
          fix e dm'
          assume e: "e \<in> set entities"
            and r': "resolve_node env c merged (fst e) (snd e) = Inr (Resolved f dm')"
          from e u r' have k: "fst e = key"
            by (metis prod.collapse)
          with e keys assms(7) have "snd e = mnode"
            by (metis eq_key_imp_eq_value prod.collapse)
          with k r' res show "dm' = dm" by simp
        qed
        from loop_stores_model[OF assms(7) res this] show ?thesis by (simp add: final)
      qed
      from False rt out n cnt val show ?thesis by auto
    qed
  qed
  have second: "item mnode ''resource_type'' = Inr (JStr ''test'') \<longrightarrow>
             (resolve_node env c merged key mnode = Inr RoutedTest
                \<longleftrightarrow> (\<exists>name columns. alias_or_name mnode = Inr name
                       \<and> node_columns env name mnode (catalog_node merged key) = Inr columns))"
    using routed_test_iff[of mnode env c merged key] by blast
  have third: "\<forall>f dm. (f, dm) \<in> set (data_models final) \<longrightarrow>
             (f, dm) \<in> set (data_models self)
             \<or> (\<exists>k m rt. (k, m) \<in> set entities
                   \<and> item m ''resource_type'' = Inr rt \<and> rt \<noteq> JStr ''test''
                   \<and> resolve_node env c merged k m = Inr (Resolved f dm))"
  proof (intro allI impI)
    fix f dm
    assume "(f, dm) \<in> set (data_models final)"
    then have "(f, dm) \<in> set (data_models (foldl (parse_node env c) merged entities))"
      by (simp add: final)
    from loop_models_origin[OF this] init
    have "(f, dm) \<in> set (data_models self)
          \<or> (\<exists>k m. (k, m) \<in> set entities \<and> resolve_node env c merged k m = Inr (Resolved f dm))"
      by simp
    then show "(f, dm) \<in> set (data_models self)
             \<or> (\<exists>k m rt. (k, m) \<in> set entities
                   \<and> item m ''resource_type'' = Inr rt \<and> rt \<noteq> JStr ''test''
                   \<and> resolve_node env c merged k m = Inr (Resolved f dm))"
    proof
      assume "\<exists>k m. (k, m) \<in> set entities \<and> resolve_node env c merged k m = Inr (Resolved f dm)"
      then obtain k m where km: "(k, m) \<in> set entities"
        "resolve_node env c merged k m = Inr (Resolved f dm)" by blast
      from resolved_not_test[OF km(2)] km show ?thesis by blast
    qed simp
  qed
  from first second third show ?thesis by blast
qed

subsection \<open>The example project\<close>

lemma demo_manifest_merged: "merged_entities demo_manifest = Inr demo_entities"
  by (simp add: merged_entities_def demo_manifest_def demo_entities_def item_def dict_items_def
      merge_dicts_def dict_store_def)

lemma demo_catalog_merged: "merged_entities demo_catalog = Inr demo_catalog_entities"
  by (simp add: merged_entities_def demo_catalog_def demo_catalog_entities_def item_def
      dict_items_def merge_dicts_def dict_store_def)

lemma demo_columns_t2:
  "node_columns demo_env (JStr ''t2'') node_t2 cnode_t2 = Inr (dm_columns model_t2)"
  by (simp add: node_columns_def parse_data_model_columns_def cnode_t2_def node_t2_def
      get_or_def item_def parse_column_def demo_env_def ccolumn_id_def ccolumn_total_def
      lower_char_def model_t2_def)

lemma demo_upstream_t2:
  "parse_data_model_upstream demo_env [] demo_merged node_t2
     = Inr ([''svc.db.sch.t1''], [(JStr ''source.p.gone'', KeyError)])"
  by (simp add: parse_data_model_upstream_def node_t2_def item_def upstream_step_def
      parent_fqn_of_def demo_merged_def demo_entities_def node_t1_def demo_env_def
      or_default_def demo_fqn_def demo_text_def found_def)

lemma demo_resolve_t2:
  "resolve_node demo_env [] demo_merged ''model.p.t2'' node_t2
     = Inr (Resolved (Some ''svc.db.sch.t2'') model_t2)"
proof -
  have c: "catalog_node demo_merged ''model.p.t2'' = cnode_t2"
    by (simp add: catalog_node_def demo_merged_def demo_catalog_entities_def)
  have n: "alias_or_name node_t2 = Inr (JStr ''t2'')"
    by (simp add: alias_or_name_def node_t2_def item_def)
  have rt: "item node_t2 ''resource_type'' = Inr (JStr ''model'')"
    by (simp add: node_t2_def item_def)
  have a: "assemble_model demo_env [] demo_merged node_t2 cnode_t2 (dm_columns model_t2)
             = Inr (Resolved (Some ''svc.db.sch.t2'') model_t2)"
    unfolding assemble_model_def demo_upstream_t2 n
    by (simp add: node_t2_def cnode_t2_def item_def get_or_def resolve_owner_def demo_env_def
        py_str_def or_default_def demo_fqn_def demo_text_def model_t2_def)
  show ?thesis
    unfolding resolve_node_def Let_def c n
    by (simp add: demo_columns_t2 rt a)
qed

lemma demo_resolve_t1:
  "resolve_node demo_env [] demo_merged ''source.p.t1'' node_t1
     = Inr (Resolved (Some ''svc.db.sch.t1'') model_t1)"
  by (simp add: resolve_node_def catalog_node_def demo_merged_def demo_catalog_entities_def
      alias_or_name_def node_t1_def cnode_t1_def item_def get_or_def node_columns_def
      parse_data_model_columns_def assemble_model_def parse_data_model_upstream_def
      resolve_owner_def demo_env_def py_str_def or_default_def demo_fqn_def demo_text_def
      model_t1_def)

lemma demo_resolve_test:
  "resolve_node demo_env [] demo_merged ''test.p.not_null_t2_id'' node_test = Inr RoutedTest"
  by (simp add: resolve_node_def catalog_node_def demo_merged_def demo_catalog_entities_def
      alias_or_name_def node_test_def item_def node_columns_def)

lemma demo_resolve_orphan:
  "resolve_node demo_env [] demo_merged ''model.p.orphan'' node_orphan = Inl TypeError"
  by (simp add: resolve_node_def catalog_node_def demo_merged_def demo_catalog_entities_def
      alias_or_name_def node_orphan_def item_def get_or_def node_columns_def
      assemble_model_def parse_data_model_upstream_def)

lemma demo_self_gate:
  "dbtConfigSource demo_self \<and> truthy (dbt_manifest demo_self) \<and> truthy (dbt_catalog demo_self)"
  by (simp add: demo_self_def demo_manifest_def demo_catalog_def)

lemma demo_merged_eq:
  "demo_self\<lparr>manifest_entities := demo_entities, catalog_entities := demo_catalog_entities\<rparr>
     = demo_merged"
  by (simp add: demo_merged_def)

lemma resolve_node_models_update:
  "resolve_node env c (s\<lparr>data_models := x\<rparr>) key mnode = resolve_node env c s key mnode"
  by (rule resolve_node_cong) simp_all

lemma resolve_node_tests_update:
  "resolve_node env c (s\<lparr>dbt_tests := x\<rparr>) key mnode = resolve_node env c s key mnode"
  by (rule resolve_node_cong) simp_all

lemma demo_run: "parse_data_model demo_env [] demo_self = (None, demo_parsed)"
proof -
  have "parse_data_model demo_env [] demo_self
          = (None, foldl (parse_node demo_env []) demo_merged demo_entities)"
    using parse_data_model_run[of demo_self demo_entities demo_catalog_entities demo_env "[]"]
      demo_self_gate
    by (simp add: demo_self_def demo_manifest_merged demo_catalog_merged demo_merged_def)
  moreover have "foldl (parse_node demo_env []) demo_merged demo_entities = demo_parsed"
  proof -
    let ?s1 = "demo_merged\<lparr>data_models := [(Some ''svc.db.sch.t2'', model_t2)]\<rparr>"
    let ?s2 = "?s1\<lparr>dbt_tests := [(''test.p.not_null_t2_id'', node_test)]\<rparr>"
    have e: "data_models demo_merged = []" "dbt_tests demo_merged = []"
      by (simp_all add: demo_merged_def demo_self_def)
    have 1: "parse_node demo_env [] demo_merged (''model.p.t2'', node_t2) = ?s1"
      by (simp add: parse_node_def demo_resolve_t2 e)
    have "resolve_node demo_env [] ?s1 ''model.p.orphan'' node_orphan = Inl TypeError"
      by (simp only: resolve_node_models_update demo_resolve_orphan)
    then have 2: "parse_node demo_env [] ?s1 (''model.p.orphan'', node_orphan) = ?s1"
      by (simp add: parse_node_def)
    have "resolve_node demo_env [] ?s1 ''test.p.not_null_t2_id'' node_test = Inr RoutedTest"
      by (simp only: resolve_node_models_update demo_resolve_test)
    then have 3: "parse_node demo_env [] ?s1 (''test.p.not_null_t2_id'', node_test) = ?s2"
      by (simp add: parse_node_def e)
    have "resolve_node demo_env [] ?s2 ''source.p.t1'' node_t1
            = Inr (Resolved (Some ''svc.db.sch.t1'') model_t1)"
      by (simp only: resolve_node_models_update resolve_node_tests_update demo_resolve_t1)
    then have 4: "parse_node demo_env [] ?s2 (''source.p.t1'', node_t1) = demo_parsed"
      by (simp add: parse_node_def demo_parsed_def)
    show ?thesis
      by (simp add: demo_entities_def 1 2 3 4)
  qed
  ultimately show ?thesis by simp
qed

text \<open>
  In the example project the model \<open>t2\<close> is resolved and no other entry has its name: the
  DataModel map holds its model under \<open>svc.db.sch.t2\<close>, once.
\<close>

theorem data_model_map_witness:
  "(''model.p.t2'', node_t2) \<in> set demo_entities
   \<and> item node_t2 ''resource_type'' = Inr (JStr ''model'')
   \<and> resolve_node demo_env [] demo_merged ''model.p.t2'' node_t2
       = Inr (Resolved (Some ''svc.db.sch.t2'') model_t2)
   \<and> count_list (map fst (data_models (snd (parse_data_model demo_env [] demo_self))))
       (Some ''svc.db.sch.t2'') = 1
   \<and> map_of (data_models (snd (parse_data_model demo_env [] demo_self))) (Some ''svc.db.sch.t2'')
       = Some model_t2"
proof -
  let ?final = "snd (parse_data_model demo_env [] demo_self)"
  let ?f = "Some ''svc.db.sch.t2''"
  have g: "dbtConfigSource demo_self" "truthy (dbt_manifest demo_self)"
    "truthy (dbt_catalog demo_self)"
    using demo_self_gate by simp_all
  have m: "merged_entities (dbt_manifest demo_self) = Inr demo_entities"
    "merged_entities (dbt_catalog demo_self) = Inr demo_catalog_entities"
    by (simp_all add: demo_self_def demo_manifest_merged demo_catalog_merged)
  have d: "distinct (map fst (data_models demo_self))"
    by (simp add: demo_self_def)
  have e: "(''model.p.t2'', node_t2) \<in> set demo_entities"
    by (simp add: demo_entities_def)
  have rt: "item node_t2 ''resource_type'' = Inr (JStr ''model'')"
    by (simp add: node_t2_def item_def)
  have others: "\<forall>k m dm'. (k, m) \<in> set demo_entities \<and> k \<noteq> ''model.p.t2'' \<longrightarrow>
                  resolve_node demo_env [] demo_merged k m \<noteq> Inr (Resolved ?f dm')"
    by (auto simp: demo_entities_def demo_resolve_orphan demo_resolve_test demo_resolve_t1)
  from data_model_map[OF g m d e demo_merged_eq[symmetric] refl, of demo_env "[]"]
  have "\<forall>outcome. resolve_node demo_env [] demo_merged ''model.p.t2'' node_t2 = Inr outcome \<longrightarrow>
           (if item node_t2 ''resource_type'' = Inr (JStr ''test'')
            then outcome = RoutedTest
                 \<and> map_of (dbt_tests ?final) ''model.p.t2'' = Some node_t2
            else \<exists>f dm database schema model_name.
                   outcome = Resolved f dm
                   \<and> alias_or_name node_t2 = Inr model_name
                   \<and> item node_t2 ''database'' = Inr database
                   \<and> item node_t2 ''schema'' = Inr schema
                   \<and> fqn_build_data_model demo_env [] (serviceName demo_env)
                       (or_default database) (or_default schema) model_name = Inr f
                   \<and> count_list (map fst (data_models ?final)) f = 1
                   \<and> ((\<forall>k m dm'. (k, m) \<in> set demo_entities \<and> k \<noteq> ''model.p.t2'' \<longrightarrow>
                          resolve_node demo_env [] demo_merged k m \<noteq> Inr (Resolved f dm'))
                        \<longrightarrow> map_of (data_models ?final) f = Some dm))"
    by blast
  with demo_resolve_t2 rt others
  have "count_list (map fst (data_models ?final)) ?f = 1
        \<and> map_of (data_models ?final) ?f = Some model_t2"
    by auto
  with e rt demo_resolve_t2 show ?thesis by blast
qed

text \<open>
  C1 as stated fails: a node whose \<open>resource_type\<close> is \<open>test\<close> and that has neither
  \<open>alias\<close> nor \<open>name\<close> is an entry of the merged map, and the test-node map stays empty.
\<close>

theorem nameless_test_not_routed:
  "manifest_entities (snd (parse_data_model demo_env [] nameless_self))
     = [(''test.p.nameless'', node_test_nameless)]
   \<and> item node_test_nameless ''resource_type'' = Inr (JStr ''test'')
   \<and> dbt_tests (snd (parse_data_model demo_env [] nameless_self)) = []"
  by (simp add: parse_data_model_def nameless_self_def demo_self_def demo_catalog_def
      merged_entities_def item_def dict_items_def merge_dicts_def dict_store_def
      node_test_nameless_def parse_node_def resolve_node_def alias_or_name_def)

section \<open>Two places where the code stops short\<close>

text \<open>
  C2. The model \<open>orphan\<close> of the example project has no node in the catalog. Its
  columns are the empty list, and then \<open>cnode["metadata"]\<close> raises TypeError: the node
  is skipped, and the DataModel map holds the two other models only.
\<close>

theorem node_without_catalog_is_skipped:
  "catalog_node demo_merged ''model.p.orphan'' = JNull
   \<and> item node_orphan ''resource_type'' = Inr (JStr ''model'')
   \<and> node_columns demo_env (JStr ''orphan'') node_orphan JNull = Inr []
   \<and> resolve_node demo_env [] demo_merged ''model.p.orphan'' node_orphan = Inl TypeError
   \<and> map fst (data_models (snd (parse_data_model demo_env [] demo_self)))
       = [Some ''svc.db.sch.t2'', Some ''svc.db.sch.t1'']"
proof -
  have "catalog_node demo_merged ''model.p.orphan'' = JNull"
    by (simp add: catalog_node_def demo_merged_def demo_catalog_entities_def)
  moreover have "item node_orphan ''resource_type'' = Inr (JStr ''model'')"
    by (simp add: node_orphan_def item_def)
  moreover have "node_columns demo_env (JStr ''orphan'') node_orphan JNull = Inr []"
    by (simp add: node_columns_def)
  moreover have "map fst (data_models (snd (parse_data_model demo_env [] demo_self)))
       = [Some ''svc.db.sch.t2'', Some ''svc.db.sch.t1'']"
    by (simp add: demo_run demo_parsed_def)
  ultimately show ?thesis
    using demo_resolve_orphan by simp
qed

text \<open>
  C3. With a test written as a query before the test \<open>not_null_t2_id\<close>, the run of
  \<open>create_dbt_tests_suite_definition\<close> ends at the KeyError of the first test: the
  definition of the second test is never requested. In the other order it is.
\<close>

theorem suite_definition_run_ends_at_first_error:
  "create_dbt_tests_suite_definition demo_env demo_sink [] singular_first
     = ([CreateTestSuiteRequest (JStr ''DBT_TEST_SUITE'') (JStr [])],
        [(TestSuite, JStr ''DBT_TEST_SUITE'')],
        Some KeyError)
   \<and> definition_names (fst (create_dbt_tests_suite_definition demo_env demo_sink [] singular_last))
       = [JStr ''not_null_t2_id'']"
proof -
  have g: "dbtConfigSource singular_first \<and> truthy (dbt_manifest singular_first)
           \<and> truthy (dbt_catalog singular_first)"
    "dbtConfigSource singular_last \<and> truthy (dbt_manifest singular_last)
           \<and> truthy (dbt_catalog singular_last)"
    using demo_gate by (simp_all add: singular_first_def singular_last_def)
  have t: "map snd (dbt_tests singular_first) = [node_test_singular, node_test]"
    "map snd (dbt_tests singular_last) = [node_test, node_test_singular]"
    by (simp_all add: singular_first_def singular_last_def)
  show ?thesis
    unfolding create_dbt_tests_suite_definition_def
    by (simp add: g t suite_request_node_test suite_request_node_test_singular
        definition_request_node_test definition_request_node_test_singular demo_sink_def)
qed

section \<open>Timestamps: the error of the float arithmetic\<close>















subsection \<open>What \<open>strptime\<close> returns\<close>








section \<open>Test results: the timestamp\<close>











lemma demo_result_untimed:
  "test_case_result_of demo_env result_untimed
     = Inr \<lparr>timestamp = None, testCaseStatus = Aborted,
            testResultValue = [(JStr ''test.p.not_null_t2_id'', ''-1'')]\<rparr>"
  by (simp add: test_case_result_of_def result_untimed_def status_of_def item_def get_or_def
      completed_at_def dbt_timestamp_def demo_env_def)


text \<open>
  The loop of \<open>update_dbt_test_result\<close> has its \<open>try\<close> inside: after a record, failed
  or not, it goes on with the remaining records.
\<close>

lemma result_loop_continues:
  "foldl (result_step env self) acc (r # rs)
     = foldl (result_step env self)
         (fst (attach_result env self (fst acc) r),
          snd acc @ (case snd (attach_result env self (fst acc) r) of
                       None \<Rightarrow> [] | Some err \<Rightarrow> [err]))
         rs"
  by (simp add: result_step_def split: prod.splits option.splits)





end
